theory Spec2Isabelle
  imports Complex_Main
begin

section \<open>JavaScript values used by the pipeline\<close>

text \<open>
  A JavaScript string is modelled as a \<open>string\<close>; a \<open>char\<close> is read as the code unit
  of the same number, so the model covers texts whose code units are below 256.
  \<open>is_space\<close> is the class \<^verbatim>\<open>\s\<close> on those code units (tab, line feed, vertical tab,
  form feed, carriage return, space, no-break space); \<open>String.prototype.trim\<close> strips
  the same set.
\<close>

definition is_space :: "char \<Rightarrow> bool" where
  "is_space c = (c \<in> set [CHR 0x09, CHR 0x0A, CHR 0x0B, CHR 0x0C, CHR 0x0D, CHR 0x20, CHR 0xA0])"

definition trim :: "string \<Rightarrow> string" where
  "trim s = rev (dropWhile is_space (rev (dropWhile is_space s)))"

fun startsWith :: "string \<Rightarrow> string \<Rightarrow> bool" where
  "startsWith s [] = True"
| "startsWith [] (p # ps) = False"
| "startsWith (c # cs) (p # ps) = (if c = p then startsWith cs ps else False)"

fun includesStr :: "string \<Rightarrow> string \<Rightarrow> bool" where
  "includesStr [] sub = (sub = [])"
| "includesStr (c # cs) sub = (if startsWith (c # cs) sub then True else includesStr cs sub)"

fun join :: "string \<Rightarrow> string list \<Rightarrow> string" where
  "join sep [] = []"
| "join sep [x] = x"
| "join sep (x # y # ys) = x @ sep @ join sep (y # ys)"

text \<open>\<open>Array.prototype.findIndex\<close>: the first index whose element passes, \<open>None\<close> for -1.\<close>

fun findIndex :: "('a \<Rightarrow> bool) \<Rightarrow> 'a list \<Rightarrow> nat option" where
  "findIndex P [] = None"
| "findIndex P (x # xs) = (if P x then Some 0 else map_option Suc (findIndex P xs))"

text \<open>
  A thrown \<open>Error\<close>: its message, the HTTP status the generative client attaches (if any)
  and whether its \<open>errorDetails\<close> hold a \<open>QuotaFailure\<close> entry.
\<close>

datatype js_error = JsError (message: string) (status: "nat option") (quotaDetail: bool)

abbreviation Error :: "string \<Rightarrow> js_error" where
  "Error m \<equiv> JsError m None False"

section \<open>Process state and the outside world\<close>

text \<open>
  A path is written below the working directory of the process:
  \<^verbatim>\<open>path.join(process.cwd(), 'uploads', ...)\<close> and the relative \<^verbatim>\<open>path.join('uploads', ...)\<close>
  name the same file.
\<close>

type_synonym path = string

text \<open>The fields of a file-list entry that the modelled operations read or write.\<close>

record file_info =
  file_id :: string
  originalName :: string
  mimeType :: string
  localPath :: "path option"
  contentUrl :: "string option"
  hasContent :: bool
  contentLength :: nat
  processedAt :: "int option"

record index_data =
  createdAt :: int
  chunkSize :: nat
  overlap :: nat
  chunks :: "string list"
  totalChunks :: nat

text \<open>
  What a file on disk holds: raw bytes or text, or the JSON written by
  \<^verbatim>\<open>JSON.stringify\<close> for the file list (\<^verbatim>\<open>files.json\<close>) and for a chunk list
  (\<^verbatim>\<open>chunks.json\<close>).
\<close>

datatype fdata = Bytes string | FilesJson "file_info list" | ChunksJson index_data

text \<open>
  The module-level variables of \<^verbatim>\<open>fileStorage.js\<close> (\<open>userFiles\<close>, \<open>documentContents\<close>),
  \<^verbatim>\<open>rag.js\<close> (\<open>storeCache\<close>, a cached vector store being the chunk texts it was built
  from) and \<^verbatim>\<open>routes/documents.js\<close> (\<open>summaryCache\<close> with summary and timestamp,
  \<open>requestCounts\<close> with count and timestamp), and the disk.
\<close>

record state =
  userFiles :: "string \<rightharpoonup> file_info list"
  documentContents :: "string \<rightharpoonup> string"
  storeCache :: "path \<rightharpoonup> string list"
  summaryCache :: "string \<rightharpoonup> string \<times> int"
  requestCounts :: "string \<rightharpoonup> nat \<times> int"
  disk :: "path \<rightharpoonup> fdata"

text \<open>
  The two requests made of the generative model, by the interpolated parts of their
  prompts: a summary of a named document's content, and an answer to a question
  from a context.
\<close>

datatype prompt = SummaryPrompt string string | AnswerPrompt string string

text \<open>
  The first argument of \<^verbatim>\<open>extractTextFromFile\<close>: nothing (\<^verbatim>\<open>undefined\<close>, \<^verbatim>\<open>null\<close>), a
  \<open>Buffer\<close> of bytes, a string (a URL or a file path), or some other object.
\<close>

datatype file_input = Missing | Buffer string | Str string | OtherObject

text \<open>
  The collaborators the code calls: the failures of the file system, the text of a
  JSON file when it is read as bytes, the environment variable
  \<^verbatim>\<open>GEMINI_API_KEY\<close>, the dynamic imports of \<^verbatim>\<open>rag.js\<close>, the PDF and DOCX
  parsers, the UTF-8 decoder of \<^verbatim>\<open>Buffer.toString\<close>, HTTP downloads, the text
  splitter, the embedding of a chunk list, the similarity search of a vector store
  and the generative model. A call of the
  generative model throws (\<open>Inl\<close>), gives no response object (\<open>Inr None\<close>) or gives a
  text. Each call of an operation takes the world as a parameter, so two calls may
  see different answers.
\<close>

record env =
  diskFault :: "path \<Rightarrow> bool"
  jsonText :: "fdata \<Rightarrow> string"
  apiKey :: bool
  importsResolve :: bool
  pdfParse :: "string \<Rightarrow> js_error + string"
  mammothRawText :: "string \<Rightarrow> js_error + string"
  decodeUtf8 :: "string \<Rightarrow> string"
  download :: "file_input \<Rightarrow> js_error + string"
  fetchText :: "string \<Rightarrow> js_error + string"
  createDocuments :: "nat \<Rightarrow> nat \<Rightarrow> string \<Rightarrow> js_error + string list"
  fromDocuments :: "string list \<Rightarrow> js_error + unit"
  similaritySearch :: "string list \<Rightarrow> string \<Rightarrow> int \<Rightarrow> js_error + string list"
  generateContent :: "prompt \<Rightarrow> js_error + string option"

subsection \<open>File system calls\<close>

definition existsSync :: "state \<Rightarrow> path \<Rightarrow> bool" where
  "existsSync st p = (disk st p \<noteq> None)"

definition mkdir :: "env \<Rightarrow> state \<Rightarrow> path \<Rightarrow> js_error + state" where
  "mkdir e st p = (if diskFault e p then Inl (Error ''EIO'') else Inr st)"

definition writeFile :: "env \<Rightarrow> state \<Rightarrow> path \<Rightarrow> fdata \<Rightarrow> js_error + state" where
  "writeFile e st p d =
     (if diskFault e p then Inl (Error ''EIO'')
      else Inr (st\<lparr>disk := (disk st)(p \<mapsto> d)\<rparr>))"

definition unlink :: "env \<Rightarrow> state \<Rightarrow> path \<Rightarrow> js_error + state" where
  "unlink e st p =
     (if diskFault e p then Inl (Error ''EIO'')
      else if disk st p = None then Inl (Error ''ENOENT'')
      else Inr (st\<lparr>disk := (disk st)(p := None)\<rparr>))"

definition readFile :: "env \<Rightarrow> state \<Rightarrow> path \<Rightarrow> js_error + fdata" where
  "readFile e st p =
     (if diskFault e p then Inl (Error ''EIO'')
      else case disk st p of None \<Rightarrow> Inl (Error ''ENOENT'') | Some d \<Rightarrow> Inr d)"

text \<open>
  \<^verbatim>\<open>getDocumentContent\<close> reads the content file with \<^verbatim>\<open>await fs.readFile(diskPath, 'utf-8')\<close>
  where \<^verbatim>\<open>fs\<close> is \<^verbatim>\<open>require("fs")\<close>, the callback interface, not \<^verbatim>\<open>fs.promises\<close>.
  Called without a callback, Node's \<^verbatim>\<open>fs.readFile\<close> throws a \<open>TypeError\<close> before it
  reads anything.
\<close>

definition fs_readFile_no_callback :: "state \<Rightarrow> path \<Rightarrow> js_error + string" where
  "fs_readFile_no_callback st p =
     Inl (Error ''ERR_INVALID_ARG_TYPE'')"

section \<open>\<^verbatim>\<open>fileStorage.js\<close>: file list and content store\<close>

definition getUserUploadsDir :: "string \<Rightarrow> path" where
  "getUserUploadsDir userId = ''uploads/user-'' @ userId"

definition getUserFilesPath :: "string \<Rightarrow> path" where
  "getUserFilesPath userId = getUserUploadsDir userId @ ''/files.json''"

definition contentPath :: "string \<Rightarrow> string \<Rightarrow> path" where
  "contentPath userId documentId =
     getUserUploadsDir userId @ ''/content-'' @ documentId @ ''.txt''"

definition contentKey :: "string \<Rightarrow> string \<Rightarrow> string" where
  "contentKey userId documentId = userId @ ''-'' @ documentId"

definition ensureUserFiles :: "env \<Rightarrow> state \<Rightarrow> string \<Rightarrow> file_info list \<times> state" where
  "ensureUserFiles e st userId =
     (case userFiles st userId of
        Some files \<Rightarrow> (files, st)
      | None \<Rightarrow>
          let loaded =
                (if existsSync st (getUserFilesPath userId)
                 then (case readFile e st (getUserFilesPath userId) of
                         Inr (FilesJson parsed) \<Rightarrow> parsed
                       | Inr other \<Rightarrow> []
                       | Inl err \<Rightarrow> [])
                 else [])
          in (loaded, st\<lparr>userFiles := (userFiles st)(userId \<mapsto> loaded)\<rparr>))"

definition getUserFile :: "env \<Rightarrow> state \<Rightarrow> string \<Rightarrow> string \<Rightarrow> file_info option \<times> state" where
  "getUserFile e st userId fileId =
     (case ensureUserFiles e st userId of
        (files, st1) \<Rightarrow> (find (\<lambda>f. file_id f = fileId) files, st1))"

definition removeDocumentContent ::
  "env \<Rightarrow> state \<Rightarrow> string \<Rightarrow> string \<Rightarrow> (js_error + bool) \<times> state" where
  "removeDocumentContent e st userId documentId =
     (let st1 = st\<lparr>documentContents := (documentContents st)(contentKey userId documentId := None)\<rparr>
      in if existsSync st1 (contentPath userId documentId)
         then (case unlink e st1 (contentPath userId documentId) of
                 Inl err \<Rightarrow> (Inl err, st1)
               | Inr st2 \<Rightarrow> (Inr True, st2))
         else (Inr True, st1))"

text \<open>
  The steps of \<^verbatim>\<open>removeUserFile\<close>: the uploaded file is unlinked if the entry has a
  \<open>localPath\<close> that exists, and the file list is written to \<^verbatim>\<open>files.json\<close>, a failure of
  which is logged and swallowed.
\<close>

definition unlinkLocalFile :: "env \<Rightarrow> state \<Rightarrow> file_info \<Rightarrow> js_error + state" where
  "unlinkLocalFile e st file =
     (case localPath file of
        None \<Rightarrow> Inr st
      | Some p \<Rightarrow> if p \<noteq> [] \<and> existsSync st p then unlink e st p else Inr st)"

definition persistUserFiles :: "env \<Rightarrow> state \<Rightarrow> string \<Rightarrow> file_info list \<Rightarrow> state" where
  "persistUserFiles e st userId files =
     (case writeFile e st (getUserFilesPath userId) (FilesJson files) of
        Inr st' \<Rightarrow> st'
      | Inl persistErr \<Rightarrow> st)"

definition removeUserFile ::
  "env \<Rightarrow> state \<Rightarrow> string \<Rightarrow> string \<Rightarrow> (js_error + bool) \<times> state" where
  "removeUserFile e st userId fileId =
     (case userFiles st userId of
        None \<Rightarrow> (Inr False, st)
      | Some files \<Rightarrow>
          (case findIndex (\<lambda>f. file_id f = fileId) files of
             None \<Rightarrow> (Inr False, st)
           | Some index \<Rightarrow>
               (case unlinkLocalFile e st (files ! index) of
                  Inl err \<Rightarrow> (Inl (Error ''Failed to remove file''), st)
                | Inr st1 \<Rightarrow>
                    (case removeDocumentContent e st1 userId fileId of
                       (Inl err, st2) \<Rightarrow> (Inl (Error ''Failed to remove file''), st2)
                     | (Inr ok, st2) \<Rightarrow>
                         let files' = take index files @ drop (Suc index) files;
                             st3 = st2\<lparr>userFiles := (userFiles st2)(userId \<mapsto> files')\<rparr>
                         in (Inr True, persistUserFiles e st3 userId files')))))"

text \<open>
  \<^verbatim>\<open>saveDocumentContent\<close>: the guard \<^verbatim>\<open>!userId || !documentId || !content\<close> is true of an
  empty string. A failure to persist is logged and swallowed. \<open>now\<close> is the clock
  behind \<open>processedAt\<close>.
\<close>

definition saveDocumentContent ::
  "env \<Rightarrow> state \<Rightarrow> string \<Rightarrow> string \<Rightarrow> string \<Rightarrow> int \<Rightarrow> (js_error + bool) \<times> state" where
  "saveDocumentContent e st userId documentId content now =
     (if userId = [] \<or> documentId = [] \<or> content = []
      then (Inl (Error ''Missing required parameters''), st)
      else
        let st1 = st\<lparr>documentContents :=
                       (documentContents st)(contentKey userId documentId \<mapsto> content)\<rparr>;
            st2 = (case mkdir e st1 (getUserUploadsDir userId) of
                     Inl persistErr \<Rightarrow> st1
                   | Inr st1' \<Rightarrow>
                       (case writeFile e st1' (contentPath userId documentId) (Bytes content) of
                          Inl persistErr \<Rightarrow> st1'
                        | Inr st1'' \<Rightarrow> st1''));
            st3 = (case userFiles st2 userId of
                     None \<Rightarrow> st2
                   | Some files \<Rightarrow>
                       (case findIndex (\<lambda>f. file_id f = documentId) files of
                          None \<Rightarrow> st2
                        | Some fileIndex \<Rightarrow>
                            st2\<lparr>userFiles := (userFiles st2)(userId \<mapsto>
                              files[fileIndex := (files ! fileIndex)
                                \<lparr>hasContent := True, contentLength := length content,
                                 processedAt := Some now\<rparr>])\<rparr>))
        in (Inr True, st3))"

text \<open>
  \<^verbatim>\<open>getDocumentContent\<close>: memory first, then the content file, then the \<open>contentUrl\<close> of
  the file-list entry; \<open>None\<close> is the \<^verbatim>\<open>null\<close> it returns when nothing is found.
\<close>

definition getDocumentContent ::
  "env \<Rightarrow> state \<Rightarrow> string \<Rightarrow> string \<Rightarrow> string option \<times> state" where
  "getDocumentContent e st userId documentId =
     (if userId = [] \<or> documentId = [] then (None, st)
      else
        case documentContents st (contentKey userId documentId) of
          Some content \<Rightarrow> (Some content, st)
        | None \<Rightarrow>
            (case (if existsSync st (contentPath userId documentId)
                   then (case fs_readFile_no_callback st (contentPath userId documentId) of
                           Inr diskContent \<Rightarrow> if diskContent \<noteq> [] then Some diskContent else None
                         | Inl err \<Rightarrow> None)
                   else None) of
               Some diskContent \<Rightarrow>
                 (Some diskContent,
                  st\<lparr>documentContents :=
                       (documentContents st)(contentKey userId documentId \<mapsto> diskContent)\<rparr>)
             | None \<Rightarrow>
                 (case getUserFile e st userId documentId of
                    (None, st1) \<Rightarrow> (None, st1)
                  | (Some file, st1) \<Rightarrow>
                      (case contentUrl file of
                         None \<Rightarrow> (None, st1)
                       | Some url \<Rightarrow>
                           if url = [] then (None, st1)
                           else (case fetchText e url of
                                   Inl fetchError \<Rightarrow> (None, st1)
                                 | Inr content \<Rightarrow>
                                     (Some content,
                                      st1\<lparr>documentContents :=
                                        (documentContents st1)
                                          (contentKey userId documentId \<mapsto> content)\<rparr>))))))"

text \<open>A process restart: every module-level variable is fresh, the disk is kept.\<close>

definition restart :: "state \<Rightarrow> state" where
  "restart st = \<lparr>userFiles = Map.empty, documentContents = Map.empty, storeCache = Map.empty,
                 summaryCache = Map.empty, requestCounts = Map.empty, disk = disk st\<rparr>"

section \<open>\<^verbatim>\<open>rag.js\<close>: chunk index and retrieval\<close>

definition getIndexDir :: "string \<Rightarrow> string \<Rightarrow> path" where
  "getIndexDir userId documentId =
     ''uploads/user-'' @ userId @ ''/lc-index-'' @ documentId"

definition indexPath :: "string \<Rightarrow> string \<Rightarrow> path" where
  "indexPath userId documentId = getIndexDir userId documentId @ ''/chunks.json''"

text \<open>
  \<^verbatim>\<open>buildIndex\<close>: every step is inside one \<^verbatim>\<open>try\<close> whose handler logs and rethrows. The
  splitter (\<open>RecursiveCharacterTextSplitter.createDocuments\<close>) is the collaborator
  \<open>createDocuments\<close>; \<open>now\<close> is the clock behind \<open>createdAt\<close>. The result is the index
  directory.
\<close>

definition buildIndex ::
  "env \<Rightarrow> state \<Rightarrow> string \<Rightarrow> string \<Rightarrow> string \<Rightarrow> nat \<Rightarrow> nat \<Rightarrow> int
     \<Rightarrow> (js_error + path) \<times> state" where
  "buildIndex e st userId documentId content chunkSize' overlap' now =
     (if \<not> importsResolve e then (Inl (Error ''Cannot find module''), st)
      else if content = [] \<or> length (trim content) = 0
      then (Inl (Error ''No content provided for indexing''), st)
      else
        case createDocuments e chunkSize' overlap' content of
          Inl err \<Rightarrow> (Inl err, st)
        | Inr docs \<Rightarrow>
            if length docs = 0 then (Inl (Error ''No chunks created from content''), st)
            else
              (case mkdir e st (getIndexDir userId documentId) of
                 Inl err \<Rightarrow> (Inl err, st)
               | Inr st1 \<Rightarrow>
                   let chunks' = filter (\<lambda>chunk. length (trim chunk) > 20) docs;
                       data = \<lparr>createdAt = now, chunkSize = chunkSize', overlap = overlap',
                               chunks = chunks', totalChunks = length chunks'\<rparr>
                   in (case writeFile e st1 (indexPath userId documentId) (ChunksJson data) of
                         Inl err \<Rightarrow> (Inl err, st1)
                       | Inr st2 \<Rightarrow> (Inr (getIndexDir userId documentId), st2))))"

text \<open>
  \<^verbatim>\<open>loadIndex\<close>: \<open>None\<close> is the \<^verbatim>\<open>null\<close> it returns, also from its \<^verbatim>\<open>catch\<close>. A file that is
  not a chunk list either fails to parse or has no \<open>chunks\<close> array; both end in \<^verbatim>\<open>null\<close>.
\<close>

definition loadIndex ::
  "env \<Rightarrow> state \<Rightarrow> string \<Rightarrow> string \<Rightarrow> string list option \<times> state" where
  "loadIndex e st userId documentId =
     (if \<not> importsResolve e then (None, st)
      else if \<not> existsSync st (indexPath userId documentId) then (None, st)
      else
        case storeCache st (getIndexDir userId documentId) of
          Some store \<Rightarrow> (Some store, st)
        | None \<Rightarrow>
            if \<not> apiKey e then (None, st)
            else
              (case readFile e st (indexPath userId documentId) of
                 Inl err \<Rightarrow> (None, st)
               | Inr raw \<Rightarrow>
                   let chunks' = (case raw of ChunksJson data \<Rightarrow> chunks data | other \<Rightarrow> [])
                   in if length chunks' = 0 then (None, st)
                      else (case fromDocuments e chunks' of
                              Inl err \<Rightarrow> (None, st)
                            | Inr ok \<Rightarrow>
                                (Some chunks',
                                 st\<lparr>storeCache :=
                                      (storeCache st)(getIndexDir userId documentId \<mapsto> chunks')\<rparr>))))"

text \<open>
  \<^verbatim>\<open>retrieveTopK\<close>: the whole body is inside a \<^verbatim>\<open>try\<close> whose handler returns the empty
  string, so the only error it could pass on is one the model shows as \<open>Inl\<close>.
\<close>

definition retrieveTopK ::
  "env \<Rightarrow> state \<Rightarrow> string \<Rightarrow> string \<Rightarrow> string \<Rightarrow> int \<Rightarrow> (js_error + string) \<times> state" where
  "retrieveTopK e st userId documentId question k =
     (case loadIndex e st userId documentId of
        (None, st1) \<Rightarrow> (Inr [], st1)
      | (Some store, st1) \<Rightarrow>
          if question = [] \<or> length (trim question) = 0 then (Inr [], st1)
          else
            (case similaritySearch e store question (max 1 k) of
               Inl err \<Rightarrow> (Inr [], st1)
             | Inr results \<Rightarrow>
                 if length results = 0 then (Inr [], st1)
                 else (Inr (join [CHR 0x0A, CHR 0x0A] results), st1)))"

section \<open>\<^verbatim>\<open>helpers.js\<close>: text extraction\<close>

text \<open>
  Character classes are read off the eight bits of a code unit, lowest first.
  \<open>letterIndex\<close> says that the low five bits are a number from 1 to 26: with the high
  bits 010 these are the letters A to Z, with 011 the letters a to z.
  \<open>toLowerCase\<close> on code units below 256: the letters A to Z and the accented capitals
  (0xC0 to 0xDE without the multiplication sign 0xD7) move up by 32, which sets bit 5.
\<close>

definition letterIndex :: "bool \<Rightarrow> bool \<Rightarrow> bool \<Rightarrow> bool \<Rightarrow> bool \<Rightarrow> bool" where
  "letterIndex b0 b1 b2 b3 b4 =
     ((b0 \<or> b1 \<or> b2 \<or> b3 \<or> b4) \<and> \<not> (b4 \<and> b3 \<and> (b2 \<or> (b1 \<and> b0))))"

fun toLower :: "char \<Rightarrow> char" where
  "toLower (Char b0 b1 b2 b3 b4 b5 b6 b7) =
     (if b6 \<and> \<not> b5 \<and>
         ((\<not> b7 \<and> letterIndex b0 b1 b2 b3 b4) \<or> (b7 \<and> \<not> (b4 \<and> b2 \<and> b1 \<and> b0)))
      then Char b0 b1 b2 b3 b4 True b6 b7
      else Char b0 b1 b2 b3 b4 b5 b6 b7)"

definition toLowerCase :: "string \<Rightarrow> string" where
  "toLowerCase s = map toLower s"

text \<open>\<^verbatim>\<open>path.extname\<close>: from the last dot of the base name, unless that dot starts it.\<close>

definition basename :: "path \<Rightarrow> string" where
  "basename p = rev (takeWhile (\<lambda>c. c \<noteq> CHR ''/'') (rev p))"

definition extname :: "path \<Rightarrow> string" where
  "extname p =
     (let b = basename p; tail = rev (takeWhile (\<lambda>c. c \<noteq> CHR ''.'') (rev b))
      in if CHR ''.'' \<notin> set b \<or> length tail + 1 = length b then [] else CHR ''.'' # tail)"

definition extractTextFromPdf :: "env \<Rightarrow> string \<Rightarrow> js_error + string" where
  "extractTextFromPdf e input =
     (case pdfParse e input of
        Inr parsed \<Rightarrow> Inr parsed
      | Inl err \<Rightarrow> Inl (Error (''Failed to extract text from PDF: '' @ message err)))"

text \<open>
  The \<^verbatim>\<open>try\<close> block of \<^verbatim>\<open>extractTextFromFile\<close>, first part: how the bytes are obtained.
  The result is \<open>fileBuffer\<close> with \<open>filePath\<close>, which is only set when a file is read
  (empty otherwise).
\<close>

definition readInput ::
  "env \<Rightarrow> state \<Rightarrow> file_input \<Rightarrow> bool \<Rightarrow> js_error + string \<times> path" where
  "readInput e st fileInput isUrl =
     (if fileInput = Missing \<or> fileInput = Str [] then Inl (Error ''File input is required'')
      else if isUrl \<or> (case fileInput of
                          Str s \<Rightarrow> startsWith s ''http://'' \<or> startsWith s ''https://''
                        | other \<Rightarrow> False)
      then (case download e fileInput of
              Inl err \<Rightarrow> Inl err
            | Inr bytes \<Rightarrow> Inr (bytes, []))
      else
        case fileInput of
          Buffer bytes \<Rightarrow> Inr (bytes, [])
        | Str filePath \<Rightarrow>
            if \<not> existsSync st filePath then Inl (Error (''File not found: '' @ filePath))
            else (case readFile e st filePath of
                    Inl err \<Rightarrow> Inl err
                  | Inr (Bytes bytes) \<Rightarrow> Inr (bytes, filePath)
                  | Inr json \<Rightarrow> Inr (jsonText e json, filePath))
        | other \<Rightarrow> Inl (Error ''Unsupported input type''))"

text \<open>
  Second part: the emptiness check and the dispatch on the file type.
  \<^verbatim>\<open>toString('utf-8')\<close> decodes the bytes, which is left to the world (\<open>decodeUtf8\<close>):
  a text of the model has no code unit above 255, so the decoder is not written out.
  The default case tries the same decoding, which cannot throw.
\<close>

definition extractByType :: "env \<Rightarrow> path \<Rightarrow> string \<Rightarrow> string \<Rightarrow> js_error + string" where
  "extractByType e filePath mimeType' fileBuffer =
     (if fileBuffer = [] then Inl (Error ''File is empty'')
      else
        let ext = drop 1 (toLowerCase (extname filePath));
            fileType = (if mimeType' \<noteq> [] then mimeType' else if ext \<noteq> [] then ext else ''pdf'');
            t = toLowerCase fileType
        in if t = ''application/pdf'' \<or> t = ''pdf'' then extractTextFromPdf e fileBuffer
           else if t = ''application/vnd.openxmlformats-officedocument.wordprocessingml.document''
                   \<or> t = ''docx''
           then mammothRawText e fileBuffer
           else if t = ''text/plain'' \<or> t = ''txt'' \<or> t = ''md'' \<or> t = ''markdown''
           then Inr (decodeUtf8 e fileBuffer)
           else Inr (decodeUtf8 e fileBuffer))"

text \<open>
  \<^verbatim>\<open>extractTextFromFile\<close>: the \<^verbatim>\<open>catch\<close> block turns every error into one of four messages
  and throws it.
\<close>

definition userMessage :: "js_error \<Rightarrow> string" where
  "userMessage err =
     (if includesStr (message err) ''unsupported file format'' \<or>
         includesStr (message err) ''Invalid PDF structure''
      then ''The file appears to be corrupted or in an unsupported format''
      else if includesStr (message err) ''File is empty'' then ''The file is empty''
      else if includesStr (message err) ''File type'' \<or> includesStr (message err) ''Unsupported''
      then message err
      else ''Failed to process the document'')"

definition extractTextFromFile ::
  "env \<Rightarrow> state \<Rightarrow> file_input \<Rightarrow> string \<Rightarrow> bool \<Rightarrow> js_error + string" where
  "extractTextFromFile e st fileInput mimeType' isUrl =
     (case (case readInput e st fileInput isUrl of
              Inl err \<Rightarrow> Inl err
            | Inr (fileBuffer, filePath) \<Rightarrow> extractByType e filePath mimeType' fileBuffer) of
        Inl err \<Rightarrow> Inl (Error (userMessage err))
      | Inr extracted \<Rightarrow> Inr extracted)"

section \<open>\<^verbatim>\<open>routes/documents.js\<close>: regular expressions\<close>

text \<open>
  The string methods that take a regular expression. \<open>replaceRuns p\<close> is
  \<^verbatim>\<open>replace(/[p]+/g, ' ')\<close>; the flag says that the previous character was in the run.
\<close>

fun replaceRuns :: "(char \<Rightarrow> bool) \<Rightarrow> bool \<Rightarrow> string \<Rightarrow> string" where
  "replaceRuns p inRun [] = []"
| "replaceRuns p inRun (c # cs) =
     (if p c then (if inRun then replaceRuns p True cs else CHR 0x20 # replaceRuns p True cs)
      else c # replaceRuns p False cs)"

text \<open>
  \<open>splitOn ok\<close> is \<open>split\<close> on runs of white space that start where \<open>ok\<close> holds of the
  text before (reversed, since the last separator): \<^verbatim>\<open>split(/\s+/)\<close> takes every run,
  \<^verbatim>\<open>split(/(?<=[.!?])\s+/)\<close> the runs after a full stop, exclamation or question mark. The
  flag says that a separator is being skipped. As in JavaScript the pieces may be
  empty at either end, and the empty string splits into one empty piece.
\<close>

fun splitOn :: "(string \<Rightarrow> bool) \<Rightarrow> bool \<Rightarrow> string \<Rightarrow> string \<Rightarrow> string list" where
  "splitOn ok skipping cur [] = [rev cur]"
| "splitOn ok skipping cur (c # cs) =
     (if is_space c \<and> (skipping \<or> ok cur)
      then (if skipping then splitOn ok True cur cs else rev cur # splitOn ok True [] cs)
      else splitOn ok False (c # cur) cs)"

definition splitWhitespace :: "string \<Rightarrow> string list" where
  "splitWhitespace s = splitOn (\<lambda>left. True) False [] s"

definition is_terminal :: "char \<Rightarrow> bool" where
  "is_terminal c = (c = CHR ''.'' \<or> c = CHR ''!'' \<or> c = CHR ''?'')"

definition splitSentences :: "string \<Rightarrow> string list" where
  "splitSentences s =
     splitOn (\<lambda>left. case left of [] \<Rightarrow> False | c # cs \<Rightarrow> is_terminal c) False [] s"

text \<open>\<^verbatim>\<open>replace(/\s([.,;:!?])/g, '$1')\<close>: a white space before a punctuation mark goes.\<close>

definition is_punct :: "char \<Rightarrow> bool" where
  "is_punct c = (c \<in> set ''.,;:!?'')"

fun tightenPunctuation :: "string \<Rightarrow> string" where
  "tightenPunctuation [] = []"
| "tightenPunctuation [c] = [c]"
| "tightenPunctuation (c # d # cs) =
     (if is_space c \<and> is_punct d then d # tightenPunctuation cs
      else c # tightenPunctuation (d # cs))"

text \<open>\<^verbatim>\<open>/[.!?]$/.test(paragraph)\<close>\<close>

definition endsWithTerminal :: "string \<Rightarrow> bool" where
  "endsWithTerminal s = (case rev s of [] \<Rightarrow> False | c # cs \<Rightarrow> is_terminal c)"

text \<open>
  The other regular expressions are written as terms and run by a backtracking
  matcher. A position in the subject is the text before it (reversed) and the text
  after it; \<open>rmatch r z\<close> lists the positions where a match of \<open>r\<close> that starts at \<open>z\<close>
  can end, in the order in which backtracking tries them (the first is the match).
  \<open>Many p lo hi\<close> is a greedy repetition of a character class, \<open>LitI\<close> a literal under
  the \<^verbatim>\<open>i\<close> flag, \<open>WordB\<close> is \<^verbatim>\<open>\b\<close>, \<open>AtStart\<close> and \<open>AtEnd\<close> are \<^verbatim>\<open>^\<close> and \<^verbatim>\<open>$\<close>.
\<close>

datatype rx =
    Lit string
  | LitI string
  | Many "char \<Rightarrow> bool" nat "nat option"
  | Seq rx rx
  | Alt rx rx
  | Opt rx
  | WordB
  | AtStart
  | AtEnd
  | Never

type_synonym position = "string \<times> string"

text \<open>The digits are the code units 0x30 to 0x39; \<^verbatim>\<open>\w\<close> is a digit, a letter or the underscore.\<close>

fun is_digit :: "char \<Rightarrow> bool" where
  "is_digit (Char b0 b1 b2 b3 b4 b5 b6 b7) =
     (\<not> b7 \<and> \<not> b6 \<and> b5 \<and> b4 \<and> \<not> (b3 \<and> (b2 \<or> b1)))"

fun is_ascii_letter :: "char \<Rightarrow> bool" where
  "is_ascii_letter (Char b0 b1 b2 b3 b4 b5 b6 b7) = (\<not> b7 \<and> b6 \<and> letterIndex b0 b1 b2 b3 b4)"

definition is_word :: "char \<Rightarrow> bool" where
  "is_word c = (is_digit c \<or> is_ascii_letter c \<or> c = CHR ''_'')"

text \<open>A literal under the \<^verbatim>\<open>i\<close> flag matches letter by letter, whatever the case.\<close>

fun startsWithI :: "string \<Rightarrow> string \<Rightarrow> bool" where
  "startsWithI s [] = True"
| "startsWithI [] (p # ps) = False"
| "startsWithI (c # cs) (p # ps) = (if toLower c = toLower p then startsWithI cs ps else False)"

definition wordAt :: "string \<Rightarrow> bool" where
  "wordAt s = (case s of [] \<Rightarrow> False | c # cs \<Rightarrow> is_word c)"

definition advance :: "nat \<Rightarrow> position \<Rightarrow> position" where
  "advance n z = (rev (take n (snd z)) @ fst z, drop n (snd z))"

fun rmatch :: "rx \<Rightarrow> position \<Rightarrow> position list" where
  "rmatch (Lit l) z = (if startsWith (snd z) l then [advance (length l) z] else [])"
| "rmatch (LitI l) z =
     (if startsWithI (snd z) l then [advance (length l) z] else [])"
| "rmatch (Many p lo hi) z =
     (let run = length (takeWhile p (snd z));
          most = (case hi of None \<Rightarrow> run | Some h \<Rightarrow> min h run)
      in map (\<lambda>n. advance n z) (rev [lo ..< Suc most]))"
| "rmatch (Seq r1 r2) z = concat (map (rmatch r2) (rmatch r1 z))"
| "rmatch (Alt r1 r2) z = rmatch r1 z @ rmatch r2 z"
| "rmatch (Opt r) z = rmatch r z @ [z]"
| "rmatch WordB z = (if wordAt (fst z) \<noteq> wordAt (snd z) then [z] else [])"
| "rmatch AtStart z = (if fst z = [] then [z] else [])"
| "rmatch AtEnd z = (if snd z = [] then [z] else [])"
| "rmatch Never z = []"

primrec seqs :: "rx list \<Rightarrow> rx" where
  "seqs [] = Lit []"
| "seqs (r # rs) = Seq r (seqs rs)"

primrec alts :: "rx list \<Rightarrow> rx" where
  "alts [] = Never"
| "alts (r # rs) = Alt r (alts rs)"

text \<open>
  \<open>rxSearch r left right\<close>: the leftmost match at or after the position, as its
  start and end. \<open>rxTest\<close> is \<open>RegExp.prototype.test\<close> of an expression without the
  \<^verbatim>\<open>g\<close> flag.
\<close>

fun rxSearch :: "rx \<Rightarrow> string \<Rightarrow> string \<Rightarrow> (position \<times> position) option" where
  "rxSearch r left [] =
     (case rmatch r (left, []) of [] \<Rightarrow> None | z # zs \<Rightarrow> Some ((left, []), z))"
| "rxSearch r left (c # cs) =
     (case rmatch r (left, c # cs) of
        [] \<Rightarrow> rxSearch r (c # left) cs
      | z # zs \<Rightarrow> Some ((left, c # cs), z))"

definition rxTest :: "rx \<Rightarrow> string \<Rightarrow> bool" where
  "rxTest r s = (rxSearch r [] s \<noteq> None)"

text \<open>
  \<open>matchAll\<close> of an expression with the \<^verbatim>\<open>g\<close> flag whose \<open>lastIndex\<close> is 0: the texts of
  the successive leftmost matches. \<open>skip\<close> counts the characters of the last match that
  are still to be passed; after an empty match the search moves on by one.
\<close>

fun matchAllFrom :: "rx \<Rightarrow> nat \<Rightarrow> string \<Rightarrow> string \<Rightarrow> string list" where
  "matchAllFrom r skip left [] =
     (if skip = 0 \<and> rmatch r (left, []) \<noteq> [] then [[]] else [])"
| "matchAllFrom r skip left (c # cs) =
     (if skip > 0 then matchAllFrom r (skip - 1) (c # left) cs
      else
        case rmatch r (left, c # cs) of
          [] \<Rightarrow> matchAllFrom r 0 (c # left) cs
        | z # zs \<Rightarrow>
            (let n = length (c # cs) - length (snd z)
             in take n (c # cs) # matchAllFrom r (n - 1) (c # left) cs))"

definition matchAll :: "rx \<Rightarrow> string \<Rightarrow> string list" where
  "matchAll r s = matchAllFrom r 0 [] s"

section \<open>\<^verbatim>\<open>routes/documents.js\<close>: summaries\<close>

definition CACHE_TTL :: int where
  "CACHE_TTL = 60 * 60 * 1000"

definition windowMs :: int where
  "windowMs = 60 * 60 * 1000"

definition maxRequests :: nat where
  "maxRequests = 10"

text \<open>
  \<^verbatim>\<open>checkRateLimit\<close>: entries older than the window are deleted, then the caller's count
  is compared; \<open>now\<close> is \<^verbatim>\<open>Date.now()\<close>.
\<close>

definition checkRateLimit :: "state \<Rightarrow> string \<Rightarrow> int \<Rightarrow> bool \<times> state" where
  "checkRateLimit st ip now =
     (let windowStart = now - windowMs;
          cleaned = (\<lambda>other. case requestCounts st other of
                                None \<Rightarrow> None
                              | Some (count, timestamp) \<Rightarrow>
                                  if timestamp < windowStart then None else Some (count, timestamp));
          ipData = (case cleaned ip of None \<Rightarrow> (0, now) | Some d \<Rightarrow> d)
      in if fst ipData \<ge> maxRequests then (False, st\<lparr>requestCounts := cleaned\<rparr>)
         else (True, st\<lparr>requestCounts := cleaned(ip \<mapsto> (fst ipData + 1, now))\<rparr>))"

definition isQuotaExceededError :: "js_error \<Rightarrow> bool" where
  "isQuotaExceededError err =
     (status err = Some 429 \<or> includesStr (message err) ''quota'' \<or> quotaDetail err)"

definition priorityKeywords :: "string list" where
  "priorityKeywords =
     [''obligation'', ''obligations'', ''right'', ''rights'', ''responsibility'',
      ''responsibilities'', ''payment'', ''fee'', ''fees'',
      ''deadline'', ''date'', ''term'', ''termination'', ''expire'', ''expiry'', ''renewal'',
      ''notice'', ''liability'', ''indemnity'',
      ''confidential'', ''confidentiality'', ''privacy'', ''data'', ''scope'', ''deliverable'',
      ''deliverables'', ''service'', ''services'',
      ''warranty'', ''warranties'', ''governing law'', ''jurisdiction'', ''dispute'',
      ''arbitration'', ''compliance'', ''breach'', ''penalty'']"

definition neutralMessage :: string where
  "neutralMessage = ''Document processed successfully. Summary not available.''"

text \<open>
  The steps of \<^verbatim>\<open>generateExtractiveSummary\<close>. A scored sentence is the sentence, its
  index and its score. The scores are sums of an even number, a multiple of 1/18 that
  is at most 1, and 0 or 0.2: two of them are equal as fractions exactly when the
  floating-point computation gives equal numbers, so the order is the same.
\<close>

definition cleanText :: "string \<Rightarrow> string" where
  "cleanText s =
     trim (replaceRuns (\<lambda>c. c = CHR 0x0D \<or> c = CHR 0x0A) False (replaceRuns is_space False s))"

definition summarySentences :: "string \<Rightarrow> string list" where
  "summarySentences cleaned =
     filter (\<lambda>s. length s > 20) (map trim (splitSentences cleaned))"

definition sentenceScore :: "nat \<Rightarrow> nat \<Rightarrow> string \<Rightarrow> rat" where
  "sentenceScore n idx s =
     (let lower = toLowerCase s;
          wordCount = length (splitWhitespace s);
          keywordHits = length (filter (\<lambda>kw. includesStr lower kw) priorityKeywords);
          lengthScore = min (of_nat wordCount / 18) 1;
          positionBoost = (if idx = 0 then 2 / 10 else if idx = n - 1 then 2 / 10 else 0)
      in of_nat keywordHits * 2 + lengthScore + positionBoost)"

definition scoreSentences :: "string list \<Rightarrow> (string \<times> nat \<times> rat) list" where
  "scoreSentences sentences =
     map (\<lambda>idx. (sentences ! idx, idx, sentenceScore (length sentences) idx (sentences ! idx)))
       [0 ..< length sentences]"

text \<open>\<^verbatim>\<open>sort((a, b) => b.score - a.score)\<close>: descending, and stable.\<close>

definition sortByScore :: "(string \<times> nat \<times> rat) list \<Rightarrow> (string \<times> nat \<times> rat) list" where
  "sortByScore xs = sort_key (\<lambda>x. - snd (snd x)) xs"

definition bucketCount :: nat where
  "bucketCount = 6"

text \<open>The loop over the buckets: \<open>todo\<close> iterations are left, \<open>b\<close> is the loop variable.\<close>

fun bucketLoop :: "(string \<times> nat \<times> rat) list \<Rightarrow> nat \<Rightarrow> nat \<Rightarrow> nat \<Rightarrow> string list" where
  "bucketLoop scored bucketSize 0 b = []"
| "bucketLoop scored bucketSize (Suc todo) b =
     (let start = b * bucketSize;
          end' = min (length scored) (start + bucketSize)
      in if start \<ge> length scored then []
         else (case sortByScore (take (end' - start) (drop start scored)) of
                 [] \<Rightarrow> []
               | best # others \<Rightarrow> [fst best])
              @ bucketLoop scored bucketSize todo (b + 1))"

fun addGlobalTop :: "string list \<Rightarrow> string list \<Rightarrow> string list" where
  "addGlobalTop selected [] = selected"
| "addGlobalTop selected (s # rest) =
     (if s \<in> set selected then addGlobalTop selected rest
      else if length (selected @ [s]) \<ge> bucketCount + 2 then selected @ [s]
      else addGlobalTop (selected @ [s]) rest)"

definition selectSentences :: "string list \<Rightarrow> string list" where
  "selectSentences sentences =
     (let scored = scoreSentences sentences;
          bucketSize = (length sentences + bucketCount - 1) div bucketCount;
          selected = bucketLoop scored bucketSize bucketCount 0;
          globalTop = map fst (sortByScore scored)
      in addGlobalTop selected globalTop)"

fun pushWords :: "nat \<Rightarrow> string list \<Rightarrow> string list \<Rightarrow> string list" where
  "pushWords targetWords ws [] = ws"
| "pushWords targetWords ws (w # sWords) =
     (if length ws \<ge> targetWords then ws else pushWords targetWords (ws @ [w]) sWords)"

fun composeWords :: "nat \<Rightarrow> string list \<Rightarrow> string list \<Rightarrow> string list" where
  "composeWords targetWords ws [] = ws"
| "composeWords targetWords ws (s # selected) =
     (let ws' = pushWords targetWords ws (splitWhitespace s)
      in if length ws' \<ge> targetWords then ws' else composeWords targetWords ws' selected)"

definition composeParagraph :: "nat \<Rightarrow> string list \<Rightarrow> string" where
  "composeParagraph targetWords selected =
     (let paragraph = tightenPunctuation
                        (replaceRuns is_space False (join '' '' (composeWords targetWords [] selected)))
      in if \<not> endsWithTerminal paragraph then paragraph @ ''.'' else paragraph)"

text \<open>
  \<^verbatim>\<open>generateExtractiveSummary\<close>. No step of its \<^verbatim>\<open>try\<close> block throws on a string, so the
  message of the \<^verbatim>\<open>catch\<close> block is only returned for a blank text.
\<close>

definition generateExtractiveSummary :: "string \<Rightarrow> nat \<Rightarrow> string" where
  "generateExtractiveSummary text' targetWords =
     (let cleaned = cleanText text'
      in if cleaned = [] then neutralMessage
         else composeParagraph targetWords (selectSentences (summarySentences cleaned)))"

subsection \<open>Counting words\<close>

text \<open>
  The words of a string are the non-empty pieces between its runs of white space.
  \<open>wcount\<close> counts them in one pass (the flag says that the previous character was
  part of a word); \<open>mcount\<close> counts one more when the string is empty or ends in
  white space, which is the number of words once a full stop is appended.
\<close>

definition wordCount :: "string \<Rightarrow> nat" where
  "wordCount s = length (filter (\<lambda>w. w \<noteq> []) (splitWhitespace s))"

fun wcount :: "bool \<Rightarrow> string \<Rightarrow> nat" where
  "wcount inWord [] = 0"
| "wcount inWord (c # cs) =
     (if is_space c then wcount False cs
      else (if inWord then 0 else 1) + wcount True cs)"

fun mcount :: "bool \<Rightarrow> string \<Rightarrow> nat" where
  "mcount inWord [] = (if inWord then 0 else 1)"
| "mcount inWord (c # cs) =
     (if is_space c then mcount False cs
      else (if inWord then 0 else 1) + mcount True cs)"

text \<open>
  \<^verbatim>\<open>generateSummary\<close>. \<open>t0\<close>, \<open>t1\<close> and \<open>t2\<close> are the three readings of \<^verbatim>\<open>Date.now()\<close>: at the
  cache check, inside \<^verbatim>\<open>checkRateLimit\<close> and when the new summary is cached. Every
  failure of the generative path is caught and answered with the extractive summary.
\<close>

definition generateSummary ::
  "env \<Rightarrow> state \<Rightarrow> string \<Rightarrow> string \<Rightarrow> string \<Rightarrow> string option \<Rightarrow> int \<Rightarrow> int \<Rightarrow> int
     \<Rightarrow> (js_error + string) \<times> state" where
  "generateSummary e st text' documentId ip fileName t0 t1 t2 =
     (let cacheKey = documentId @ ''-'' @ ip
      in case (case summaryCache st cacheKey of
                 None \<Rightarrow> None
               | Some (summary, timestamp) \<Rightarrow>
                   if t0 - timestamp < CACHE_TTL then Some summary else None) of
           Some cachedSummary \<Rightarrow> (Inr cachedSummary, st)
         | None \<Rightarrow>
             (case checkRateLimit st ip t1 of
                (False, st1) \<Rightarrow> (Inr (generateExtractiveSummary text' 180), st1)
              | (True, st1) \<Rightarrow>
                  if \<not> apiKey e then (Inr (generateExtractiveSummary text' 180), st1)
                  else
                    let maxLength = 8000;
                        contentToSummarize =
                          (if length text' > maxLength then take maxLength text' @ ''...''
                           else text');
                        documentName =
                          (case fileName of
                             None \<Rightarrow> ''this document''
                           | Some n \<Rightarrow> if n = [] then ''this document''
                                       else [CHR 0x22] @ n @ [CHR 0x22])
                    in (case generateContent e (SummaryPrompt documentName contentToSummarize) of
                          Inl err \<Rightarrow> (Inr (generateExtractiveSummary text' 180), st1)
                        | Inr None \<Rightarrow> (Inr (generateExtractiveSummary text' 180), st1)
                        | Inr (Some summary) \<Rightarrow>
                            if summary = [] \<or> length (trim summary) = 0
                            then (Inr (generateExtractiveSummary text' 180), st1)
                            else (Inr (trim summary),
                                  st1\<lparr>summaryCache :=
                                        (summaryCache st1)(cacheKey \<mapsto> (trim summary, t2))\<rparr>))))"

section \<open>\<^verbatim>\<open>routes/documents.js\<close>: answers\<close>

text \<open>
  The class \<^verbatim>\<open>[\p{L}\p{N}]\<close> on code units below 256: the ASCII letters and digits, the
  accented letters (0xC0 to 0xFF without the multiplication and division signs 0xD7
  and 0xF7), the ordinal indicators and the micro sign, the superscript digits and
  the fractions.
\<close>

fun is_accented_letter :: "char \<Rightarrow> bool" where
  "is_accented_letter (Char b0 b1 b2 b3 b4 b5 b6 b7) =
     (b7 \<and> b6 \<and> \<not> (b4 \<and> \<not> b3 \<and> b2 \<and> b1 \<and> b0))"

definition is_letter_or_number :: "char \<Rightarrow> bool" where
  "is_letter_or_number c =
     (is_digit c \<or> is_ascii_letter c \<or> is_accented_letter c \<or>
      c \<in> set [CHR 0xAA, CHR 0xB5, CHR 0xBA, CHR 0xB2, CHR 0xB3, CHR 0xB9,
                 CHR 0xBC, CHR 0xBD, CHR 0xBE])"

definition normalizeQuestion :: "string \<Rightarrow> string" where
  "normalizeQuestion question =
     trim (map (\<lambda>c. if is_letter_or_number c \<or> is_space c then c else CHR 0x20)
             (toLowerCase question))"

definition spaces :: rx where
  "spaces = Many is_space 1 None"

text \<open>
  \<^verbatim>\<open>/(deadline|due\s+date|due\b|last\s+date|submission|submit|submitted\s+on|expiry|expires|expiration|valid\s+until|when)/i\<close>
\<close>

definition isDeadlineQueryRx :: rx where
  "isDeadlineQueryRx =
     alts [LitI ''deadline'', seqs [LitI ''due'', spaces, LitI ''date''],
           Seq (LitI ''due'') WordB, seqs [LitI ''last'', spaces, LitI ''date''],
           LitI ''submission'', LitI ''submit'', seqs [LitI ''submitted'', spaces, LitI ''on''],
           LitI ''expiry'', LitI ''expires'', LitI ''expiration'',
           seqs [LitI ''valid'', spaces, LitI ''until''], LitI ''when'']"

text \<open>\<^verbatim>\<open>/(deadline|due|expir|valid|until|before|by|end)/i\<close>\<close>

definition keywordRegex :: rx where
  "keywordRegex =
     alts [LitI ''deadline'', LitI ''due'', LitI ''expir'', LitI ''valid'', LitI ''until'',
           LitI ''before'', LitI ''by'', LitI ''end'']"

text \<open>
  The three alternatives of \<^verbatim>\<open>dateRegex\<close> (flags \<^verbatim>\<open>ig\<close>): a month name, a day and a
  four-digit year; day, month and year between slashes or dashes; and the year first.
\<close>

definition monthName :: rx where
  "monthName =
     alts [Seq (LitI ''Jan'') (Opt (LitI ''uary'')), Seq (LitI ''Feb'') (Opt (LitI ''ruary'')),
           Seq (LitI ''Mar'') (Opt (LitI ''ch'')), Seq (LitI ''Apr'') (Opt (LitI ''il'')),
           LitI ''May'', Seq (LitI ''Jun'') (Opt (LitI ''e'')), Seq (LitI ''Jul'') (Opt (LitI ''y'')),
           Seq (LitI ''Aug'') (Opt (LitI ''ust'')),
           Seq (LitI ''Sep'') (Opt (Alt (LitI ''t'') (LitI ''tember''))),
           Seq (LitI ''Oct'') (Opt (LitI ''ober'')), Seq (LitI ''Nov'') (Opt (LitI ''ember'')),
           Seq (LitI ''Dec'') (Opt (LitI ''ember''))]"

definition is_slash_or_dash :: "char \<Rightarrow> bool" where
  "is_slash_or_dash c = (c = CHR ''/'' \<or> c = CHR ''-'')"

definition dateRegex :: rx where
  "dateRegex =
     alts [seqs [WordB, monthName, spaces, Many is_digit 1 (Some 2), Opt (Lit '',''), spaces,
                 Many is_digit 4 (Some 4)],
           seqs [WordB, Many is_digit 1 (Some 2), Many is_slash_or_dash 1 (Some 1),
                 Many is_digit 1 (Some 2), Many is_slash_or_dash 1 (Some 1),
                 Many is_digit 2 (Some 4), WordB],
           seqs [WordB, Many is_digit 4 (Some 4), Many is_slash_or_dash 1 (Some 1),
                 Many is_digit 1 (Some 2), Many is_slash_or_dash 1 (Some 1),
                 Many is_digit 1 (Some 2), WordB]]"

definition answerSentences :: "string \<Rightarrow> string list" where
  "answerSentences ctx =
     filter (\<lambda>s. s \<noteq> [] \<and> length s > 10) (splitSentences (replaceRuns is_space False ctx))"

text \<open>
  The deadline loop. \<open>windowText\<close> joins the sentence with its neighbours, the ones that
  exist; the loop returns at the first sentence that has a keyword and a date in its
  window.
\<close>

definition windowText :: "string list \<Rightarrow> nat \<Rightarrow> string" where
  "windowText sentences i =
     join '' '' (filter (\<lambda>s. s \<noteq> [])
       ((if i > 0 then [sentences ! (i - 1)] else []) @ [sentences ! i] @
        (if i + 1 < length sentences then [sentences ! (i + 1)] else [])))"

definition deadlineHit :: "string list \<Rightarrow> nat \<Rightarrow> bool" where
  "deadlineHit sentences i =
     (rxTest keywordRegex (sentences ! i) \<and> matchAll dateRegex (windowText sentences i) \<noteq> [])"

definition deadlineAnswer :: "string \<Rightarrow> string \<Rightarrow> string" where
  "deadlineAnswer date s =
     ''The deadline appears to be: '' @ date @ ''. Source: '' @ [CHR 0x22] @ trim s @ [CHR 0x22]"

definition deadlineScan :: "string list \<Rightarrow> string option" where
  "deadlineScan sentences =
     (case find (deadlineHit sentences) [0 ..< length sentences] of
        None \<Rightarrow> None
      | Some i \<Rightarrow>
          Some (deadlineAnswer (hd (matchAll dateRegex (windowText sentences i))) (sentences ! i)))"

text \<open>
  \<^verbatim>\<open>generateExtractiveAnswer\<close>. When the deadline scan returns nothing the function goes
  on to the amount scan and to the scoring of sentences by term overlap, which is
  floating-point arithmetic; \<open>laterStages\<close> stands for those stages (and the \<^verbatim>\<open>catch\<close>
  block around them), given the normalised question and the sentences.
\<close>

definition generateExtractiveAnswer ::
  "(string \<Rightarrow> string list \<Rightarrow> string) \<Rightarrow> string \<Rightarrow> string \<Rightarrow> string" where
  "generateExtractiveAnswer laterStages question ctx =
     (if question = [] \<or> ctx = [] then ''No answer available from the provided context.''
      else
        let q = normalizeQuestion question;
            isDeadlineQuery = rxTest isDeadlineQueryRx q;
            sentences = answerSentences ctx
        in case (if isDeadlineQuery then deadlineScan sentences else None) of
             Some answer \<Rightarrow> answer
           | None \<Rightarrow> laterStages q sentences)"

definition askQuestion ::
  "env \<Rightarrow> (string \<Rightarrow> string list \<Rightarrow> string) \<Rightarrow> string \<Rightarrow> string \<Rightarrow> js_error + string" where
  "askQuestion e laterStages question ctx =
     (let truncatedContext = (if length ctx > 12000 then take 12000 ctx @ ''...'' else ctx)
      in if \<not> apiKey e then Inr (generateExtractiveAnswer laterStages question truncatedContext)
         else
           case (case generateContent e (AnswerPrompt truncatedContext question) of
                   Inl err \<Rightarrow> Inl err
                 | Inr None \<Rightarrow> Inl (Error ''Invalid response from Gemini API'')
                 | Inr (Some responseText) \<Rightarrow>
                     if responseText = [] \<or> length (trim responseText) = 0
                     then Inl (Error ''Empty response from Gemini API'')
                     else Inr (trim responseText)) of
             Inr answer \<Rightarrow> Inr answer
           | Inl err \<Rightarrow>
               let fallback = generateExtractiveAnswer laterStages question ctx
               in if isQuotaExceededError err
                  then Inr (''I'' @ [CHR 0x27] @
                            ''m currently experiencing high demand. Based on the document content: ''
                            @ fallback)
                  else Inr fallback)"

section \<open>\<^verbatim>\<open>routes/documents.js\<close>: the content and question routes\<close>

text \<open>
  A response: an error status with its code, or the data of a success. The
  middleware \<^verbatim>\<open>validateDocumentId\<close> runs before either handler.
\<close>

datatype response = Failed nat string | Data string

definition validateDocumentId :: "string \<Rightarrow> response option" where
  "validateDocumentId documentId =
     (if documentId = [] then Some (Failed 400 ''Document ID is required'')
      else if length documentId > 100 then Some (Failed 400 ''Document ID is too long'')
      else None)"

text \<open>
  The content of a document as both routes fetch it: from the store, or else
  extracted again from the uploaded file and saved. \<open>Inl\<close> is an error thrown on the way.
\<close>

definition contentOrExtract ::
  "env \<Rightarrow> state \<Rightarrow> string \<Rightarrow> string \<Rightarrow> file_info \<Rightarrow> int
     \<Rightarrow> (js_error + string option) \<times> state" where
  "contentOrExtract e st userId documentId file now =
     (case getDocumentContent e st userId documentId of
        (stored, st1) \<Rightarrow>
          if stored \<noteq> None \<and> stored \<noteq> Some [] then (Inr stored, st1)
          else
            (case localPath file of
               None \<Rightarrow> (Inr stored, st1)
             | Some p \<Rightarrow>
                 if p = [] \<or> \<not> existsSync st1 p then (Inr stored, st1)
                 else
                   (case extractTextFromFile e st1 (Str p) (mimeType file) False of
                      Inl err \<Rightarrow> (Inl err, st1)
                    | Inr content \<Rightarrow>
                        if content = [] then (Inr (Some content), st1)
                        else (case saveDocumentContent e st1 userId documentId content now of
                                (Inl err, st2) \<Rightarrow> (Inl err, st2)
                              | (Inr ok, st2) \<Rightarrow> (Inr (Some content), st2)))))"

text \<open>\<^verbatim>\<open>GET /:id/content\<close>\<close>

definition getContent :: "env \<Rightarrow> state \<Rightarrow> string \<Rightarrow> string \<Rightarrow> int \<Rightarrow> response \<times> state" where
  "getContent e st userId documentId now =
     (case validateDocumentId documentId of
        Some refused \<Rightarrow> (refused, st)
      | None \<Rightarrow>
          (case getUserFile e st userId documentId of
             (None, st1) \<Rightarrow> (Failed 404 ''FILE_NOT_FOUND'', st1)
           | (Some file, st1) \<Rightarrow>
               (case contentOrExtract e st1 userId documentId file now of
                  (Inl extractError, st2) \<Rightarrow> (Failed 500 ''FAILED_TO_RETRIEVE_CONTENT'', st2)
                | (Inr None, st2) \<Rightarrow> (Failed 404 ''CONTENT_NOT_FOUND'', st2)
                | (Inr (Some content), st2) \<Rightarrow>
                    if content = [] then (Failed 404 ''CONTENT_NOT_FOUND'', st2)
                    else (Data content, st2))))"

text \<open>
  \<^verbatim>\<open>POST /:id/ask\<close>. The small-talk checks are
  \<^verbatim>\<open>/^(hi|hello|hey|hola|namaste)[!.\s]*$/\<close> and \<^verbatim>\<open>/who\s+are\s+you\??/\<close> on the lower-cased,
  trimmed question.
\<close>

definition greetingRx :: rx where
  "greetingRx =
     seqs [AtStart, alts [Lit ''hi'', Lit ''hello'', Lit ''hey'', Lit ''hola'', Lit ''namaste''],
           Many (\<lambda>c. c = CHR ''!'' \<or> c = CHR ''.'' \<or> is_space c) 0 None, AtEnd]"

definition identityRx :: rx where
  "identityRx =
     seqs [Lit ''who'', spaces, Lit ''are'', spaces, Lit ''you'', Opt (Lit ''?'')]"

definition ask ::
  "env \<Rightarrow> state \<Rightarrow> (string \<Rightarrow> string list \<Rightarrow> string) \<Rightarrow> string \<Rightarrow> string \<Rightarrow> string \<Rightarrow> int
     \<Rightarrow> response \<times> state" where
  "ask e st laterStages userId documentId question now =
     (case validateDocumentId documentId of
        Some refused \<Rightarrow> (refused, st)
      | None \<Rightarrow>
          if question = [] \<or> trim question = [] then (Failed 400 ''INVALID_QUESTION'', st)
          else if rxTest greetingRx (trim (toLowerCase question))
          then (Data ''Hello! How can I help you with your document?'', st)
          else if rxTest identityRx (trim (toLowerCase question))
          then (Data ''I am the LegalLens assistant bot. Ask me anything about your document.'', st)
          else
            (case getUserFile e st userId documentId of
               (None, st1) \<Rightarrow> (Failed 404 ''DOCUMENT_NOT_FOUND'', st1)
             | (Some file, st1) \<Rightarrow>
                 (case contentOrExtract e st1 userId documentId file now of
                    (Inl contentError, st2) \<Rightarrow> (Failed 500 ''DOCUMENT_PROCESSING_ERROR'', st2)
                  | (Inr None, st2) \<Rightarrow> (Failed 400 ''CONTENT_NOT_AVAILABLE'', st2)
                  | (Inr (Some content), st2) \<Rightarrow>
                      if content = [] then (Failed 400 ''CONTENT_NOT_AVAILABLE'', st2)
                      else
                        (case retrieveTopK e st2 userId documentId question 4 of
                           (retrieved, st3) \<Rightarrow>
                             let retrievedContext = (case retrieved of Inr r \<Rightarrow> r | Inl err \<Rightarrow> []);
                                 truncated = (if length content > 8000
                                              then take 8000 content @ ''...'' else content);
                                 finalContext =
                                   (if retrievedContext \<noteq> [] \<and> length (trim retrievedContext) > 0
                                    then retrievedContext else truncated)
                             in (case askQuestion e laterStages question finalContext of
                                   Inl err \<Rightarrow> (Failed 500 ''DOCUMENT_PROCESSING_ERROR'', st3)
                                 | Inr answer \<Rightarrow> (Data answer, st3))))))"

section \<open>Sample worlds and states\<close>

text \<open>
  A world for the examples: the disk never fails, the API key is set, the decoder
  gives the bytes of an ASCII text back as they are, the splitter gives a text shorter
  than the chunk size back as one chunk, the search returns the first \<open>k\<close> chunks of
  the store, downloads fail and the generative model is over its quota.
\<close>

definition sampleWorld :: env where
  "sampleWorld =
     \<lparr>diskFault = (\<lambda>p. False), jsonText = (\<lambda>d. ''{}''), apiKey = True, importsResolve = True,
      pdfParse = (\<lambda>bytes. Inr bytes), mammothRawText = (\<lambda>bytes. Inr bytes),
      decodeUtf8 = (\<lambda>bytes. bytes),
      download = (\<lambda>u. Inl (Error ''ENOTFOUND'')), fetchText = (\<lambda>u. Inl (Error ''ENOTFOUND'')),
      createDocuments = (\<lambda>size' overlap' content. Inr [trim content]),
      fromDocuments = (\<lambda>docs. Inr ()),
      similaritySearch = (\<lambda>store question k. Inr (take (nat k) store)),
      generateContent = (\<lambda>p. Inl (JsError ''quota exceeded'' (Some 429) False))\<rparr>"

definition emptyState :: state where
  "emptyState =
     \<lparr>userFiles = Map.empty, documentContents = Map.empty, storeCache = Map.empty,
      summaryCache = Map.empty, requestCounts = Map.empty, disk = Map.empty\<rparr>"

text \<open>A completed upload of user \<open>u1\<close>: the file entry, its content and its chunk list.\<close>

definition sampleFile :: file_info where
  "sampleFile =
     \<lparr>file_id = ''d1'', originalName = ''lease.txt'', mimeType = ''text/plain'',
      localPath = Some ''uploads/user-u1/d1.txt'', contentUrl = None, hasContent = True,
      contentLength = 40, processedAt = Some 0\<rparr>"

definition sampleText :: string where
  "sampleText = ''The rent is due on the first day of May.''"

definition uploadedState :: state where
  "uploadedState =
     \<lparr>userFiles = [''u1'' \<mapsto> [sampleFile]],
      documentContents = [''u1-d1'' \<mapsto> sampleText],
      storeCache = Map.empty, summaryCache = Map.empty, requestCounts = Map.empty,
      disk = [''uploads/user-u1/d1.txt'' \<mapsto> Bytes sampleText,
              ''uploads/user-u1/files.json'' \<mapsto> FilesJson [sampleFile],
              ''uploads/user-u1/content-d1.txt'' \<mapsto> Bytes sampleText,
              ''uploads/user-u1/lc-index-d1/chunks.json'' \<mapsto>
                ChunksJson \<lparr>createdAt = 0, chunkSize = 1000, overlap = 150,
                            chunks = [sampleText], totalChunks = 1\<rparr>]\<rparr>"

text \<open>The same upload with an index of two chunks.\<close>

definition noticeText :: string where
  "noticeText = ''Notice must be given thirty days before the end.''"

definition indexedState :: state where
  "indexedState =
     uploadedState\<lparr>disk := (disk uploadedState)
       (''uploads/user-u1/lc-index-d1/chunks.json'' \<mapsto>
          ChunksJson \<lparr>createdAt = 0, chunkSize = 1000, overlap = 150,
                      chunks = [sampleText, noticeText], totalChunks = 2\<rparr>)\<rparr>"

text \<open>What \<^verbatim>\<open>removeUserFile\<close> leaves of that upload.\<close>

definition afterDelete :: state where
  "afterDelete =
     \<lparr>userFiles = [''u1'' \<mapsto> []],
      documentContents = Map.empty,
      storeCache = Map.empty, summaryCache = Map.empty, requestCounts = Map.empty,
      disk = [''uploads/user-u1/files.json'' \<mapsto> FilesJson [],
              ''uploads/user-u1/lc-index-d1/chunks.json'' \<mapsto>
                ChunksJson \<lparr>createdAt = 0, chunkSize = 1000, overlap = 150,
                            chunks = [sampleText], totalChunks = 1\<rparr>]\<rparr>"

text \<open>
  A caller \<open>10.0.0.1\<close> who has used up the ten requests of the hour, with and without a
  cached summary of document \<open>d1\<close>.
\<close>

definition limitedState :: state where
  "limitedState = emptyState\<lparr>requestCounts := [''10.0.0.1'' \<mapsto> (10, 1000)]\<rparr>"

definition cachedState :: state where
  "cachedState = limitedState\<lparr>summaryCache := [''d1-10.0.0.1'' \<mapsto> (''A cached summary.'', 1000)]\<rparr>"





section \<open>Character classes\<close>

text \<open>The classes defined on the bits of a code unit, by the number of the code unit.\<close>

lemma is_space_code_unit:
  "is_space c \<longleftrightarrow> (let n = (of_char c :: nat) in (9 \<le> n \<and> n \<le> 13) \<or> n = 32 \<or> n = 160)"
proof (cases c)
  case (Char b0 b1 b2 b3 b4 b5 b6 b7)
  show ?thesis
    unfolding Char
    by (cases b0; cases b1; cases b2; cases b3; cases b4; cases b5; cases b6; cases b7)
       (simp_all add: is_space_def)
qed

lemma is_digit_code_unit:
  "is_digit c \<longleftrightarrow> 48 \<le> (of_char c :: nat) \<and> (of_char c :: nat) \<le> 57"
  by (cases c) auto

lemma toLower_code_unit:
  "toLower c =
     (let n = (of_char c :: nat)
      in if (65 \<le> n \<and> n \<le> 90) \<or> (192 \<le> n \<and> n \<le> 222 \<and> n \<noteq> 215)
         then char_of (n + 32) else c)"
proof (cases c)
  case (Char b0 b1 b2 b3 b4 b5 b6 b7)
  show ?thesis
    unfolding Char
    by (cases b0; cases b1; cases b2; cases b3; cases b4; cases b5; cases b6; cases b7)
       (simp_all add: letterIndex_def char_of_def bit_iff_odd_drop_bit)
qed

lemma is_word_code_unit:
  "is_word c \<longleftrightarrow>
     (let n = (of_char c :: nat)
      in (48 \<le> n \<and> n \<le> 57) \<or> (65 \<le> n \<and> n \<le> 90) \<or> (97 \<le> n \<and> n \<le> 122) \<or> n = 95)"
proof (cases c)
  case (Char b0 b1 b2 b3 b4 b5 b6 b7)
  show ?thesis
    unfolding Char
    by (cases b0; cases b1; cases b2; cases b3; cases b4; cases b5; cases b6; cases b7)
       (simp_all add: letterIndex_def is_word_def)
qed

lemma is_letter_or_number_code_unit:
  "is_letter_or_number c \<longleftrightarrow>
     (let n = (of_char c :: nat)
      in (48 \<le> n \<and> n \<le> 57) \<or> (65 \<le> n \<and> n \<le> 90) \<or> (97 \<le> n \<and> n \<le> 122) \<or>
         n = 170 \<or> n = 181 \<or> n = 186 \<or> (192 \<le> n \<and> n \<le> 214) \<or> (216 \<le> n \<and> n \<le> 246) \<or>
         248 \<le> n \<or> n = 178 \<or> n = 179 \<or> n = 185 \<or> (188 \<le> n \<and> n \<le> 190))"
proof (cases c)
  case (Char b0 b1 b2 b3 b4 b5 b6 b7)
  show ?thesis
    unfolding Char
    by (cases b0; cases b1; cases b2; cases b3; cases b4; cases b5; cases b6; cases b7)
       (simp_all add: letterIndex_def is_letter_or_number_def)
qed

section \<open>Content store\<close>

text \<open>
  C10. For every user id and document id, \<^verbatim>\<open>saveDocumentContent\<close> called with the empty
  string as content throws \<open>Missing required parameters\<close> and leaves the whole state,
  the memory cache and the disk included, as it was.
\<close>

theorem save_empty_content_rejected:
  "saveDocumentContent e st userId documentId [] now
     = (Inl (Error ''Missing required parameters''), st)"
  by (simp add: saveDocumentContent_def)

text \<open>Within one run, a saved text is loaded back from the memory cache.\<close>

lemma save_then_load_same_run:
  assumes "userId \<noteq> []" and "documentId \<noteq> []" and "content \<noteq> []"
  shows "fst (getDocumentContent e'
                (snd (saveDocumentContent e st userId documentId content now))
                userId documentId) = Some content"
proof -
  have "documentContents (snd (saveDocumentContent e st userId documentId content now))
          (contentKey userId documentId) = Some content"
    using assms
    by (simp add: saveDocumentContent_def Let_def mkdir_def writeFile_def
        split: option.splits sum.splits)
  then show ?thesis
    using assms by (simp add: getDocumentContent_def)
qed

text \<open>
  After a restart a load never returns what the content file holds: whatever it
  returns was fetched from the \<open>contentUrl\<close> of the file-list entry.
\<close>

lemma load_after_restart_only_from_url:
  assumes "fst (getDocumentContent e (restart st) userId documentId) = Some content"
  shows "\<exists>url. fetchText e url = Inr content"
  using assms
  by (auto simp add: getDocumentContent_def restart_def fs_readFile_no_callback_def
      split: if_splits option.splits prod.splits sum.splits)

text \<open>
  C7. Saving a text and loading it back after a restart should return the saved text
  from the disk. At user \<open>u1\<close>, document \<open>d1\<close> and text \<open>hello\<close> the save succeeds, the
  content file holds the text and a load in the same run returns it; after a restart
  the load returns nothing, because the read of the content file throws.
\<close>

theorem content_lost_after_restart:
  "fst (saveDocumentContent sampleWorld emptyState ''u1'' ''d1'' ''hello'' 0) = Inr True
   \<and> disk (snd (saveDocumentContent sampleWorld emptyState ''u1'' ''d1'' ''hello'' 0))
        (contentPath ''u1'' ''d1'') = Some (Bytes ''hello'')
   \<and> fst (getDocumentContent sampleWorld
            (snd (saveDocumentContent sampleWorld emptyState ''u1'' ''d1'' ''hello'' 0))
            ''u1'' ''d1'') = Some ''hello''
   \<and> fst (getDocumentContent sampleWorld
            (restart (snd (saveDocumentContent sampleWorld emptyState ''u1'' ''d1'' ''hello'' 0)))
            ''u1'' ''d1'') = None"
  by (simp add: saveDocumentContent_def getDocumentContent_def restart_def sampleWorld_def
      emptyState_def contentPath_def contentKey_def getUserUploadsDir_def getUserFilesPath_def
      mkdir_def writeFile_def existsSync_def fs_readFile_no_callback_def getUserFile_def
      ensureUserFiles_def readFile_def)

section \<open>Deleting a document\<close>

lemma findIndex_Some:
  "findIndex P xs = Some i \<Longrightarrow> i < length xs \<and> P (xs ! i)"
proof (induction xs arbitrary: i)
  case Nil
  then show ?case by simp
next
  case (Cons x xs)
  then show ?case by (cases "P x") (auto simp add: nth_Cons')
qed

lemma distinct_remove_nth:
  assumes "distinct (map f xs)" and "i < length xs"
  shows "\<forall>x \<in> set (take i xs @ drop (Suc i) xs). f x \<noteq> f (xs ! i)"
proof -
  have "xs = take i xs @ xs ! i # drop (Suc i) xs"
    using assms(2) by (simp add: id_take_nth_drop)
  then have "distinct (map f (take i xs @ xs ! i # drop (Suc i) xs))"
    using assms(1) by simp
  then have "f (xs ! i) \<notin> f ` set (take i xs)" and "f (xs ! i) \<notin> f ` set (drop (Suc i) xs)"
    by simp_all
  then show ?thesis by (metis Un_iff imageI set_append)
qed

lemma find_None_after_remove:
  assumes "distinct (map file_id files)" and "findIndex (\<lambda>f. file_id f = fileId) files = Some i"
  shows "find (\<lambda>f. file_id f = fileId) (take i files @ drop (Suc i) files) = None"
proof -
  from findIndex_Some [OF assms(2)]
  have i: "i < length files" and id: "file_id (files ! i) = fileId"
    by simp_all
  from distinct_remove_nth [OF assms(1) i] id
  have "\<forall>x \<in> set (take i files @ drop (Suc i) files). file_id x \<noteq> fileId" by simp
  then show ?thesis
    unfolding find_None_iff by blast
qed

lemma removeDocumentContent_ok:
  assumes "removeDocumentContent e st userId documentId = (Inr ok, st')"
  shows "documentContents st' (contentKey userId documentId) = None"
    and "disk st' (contentPath userId documentId) = None"
    and "userFiles st' = userFiles st"
    and "storeCache st' = storeCache st"
  using assms
  by (auto simp add: removeDocumentContent_def Let_def existsSync_def unlink_def
      split: if_splits sum.splits)

lemma filesPath_neq_contentPath: "getUserFilesPath userId \<noteq> contentPath userId documentId"
  by (simp add: getUserFilesPath_def contentPath_def getUserUploadsDir_def)

lemma unlinkLocalFile_ok:
  assumes "unlinkLocalFile e st file = Inr st1"
  shows "userFiles st1 = userFiles st" and "documentContents st1 = documentContents st"
    and "storeCache st1 = storeCache st"
  using assms
  by (auto simp add: unlinkLocalFile_def unlink_def split: option.splits if_splits)

lemma persistUserFiles_frame:
  "userFiles (persistUserFiles e st userId files) = userFiles st"
  "documentContents (persistUserFiles e st userId files) = documentContents st"
  "storeCache (persistUserFiles e st userId files) = storeCache st"
  "p \<noteq> getUserFilesPath userId \<Longrightarrow> disk (persistUserFiles e st userId files) p = disk st p"
  by (simp_all add: persistUserFiles_def writeFile_def)

lemma removeUserFile_state:
  assumes ok: "removeUserFile e st userId fileId = (Inr True, st')"
    and files: "userFiles st userId = Some files"
    and dist: "distinct (map file_id files)"
  shows "documentContents st' (contentKey userId fileId) = None"
    and "disk st' (contentPath userId fileId) = None"
    and "\<exists>files'. userFiles st' userId = Some files' \<and>
           find (\<lambda>f. file_id f = fileId) files' = None"
    and "storeCache st' = storeCache st"
proof -
  from ok files obtain index where idx: "findIndex (\<lambda>f. file_id f = fileId) files = Some index"
    by (cases "findIndex (\<lambda>f. file_id f = fileId) files") (simp_all add: removeUserFile_def)
  from ok files idx obtain st1 where st1: "unlinkLocalFile e st (files ! index) = Inr st1"
    by (cases "unlinkLocalFile e st (files ! index)") (simp_all add: removeUserFile_def)
  obtain r st2 where rdc: "removeDocumentContent e st1 userId fileId = (r, st2)"
    by (cases "removeDocumentContent e st1 userId fileId")
  from ok files idx st1 rdc obtain okv where r: "r = Inr okv"
    by (cases r) (simp_all add: removeUserFile_def)
  let ?files' = "take index files @ drop (Suc index) files"
  from ok files idx st1 rdc r
  have st': "st' = persistUserFiles e
                     (st2\<lparr>userFiles := (userFiles st2)(userId \<mapsto> ?files')\<rparr>) userId ?files'"
    by (simp add: removeUserFile_def Let_def)
  from rdc r have rdc': "removeDocumentContent e st1 userId fileId = (Inr okv, st2)"
    by simp
  note a = removeDocumentContent_ok(1) [OF rdc'] and b = removeDocumentContent_ok(2) [OF rdc']
  show "documentContents st' (contentKey userId fileId) = None"
    using a by (simp add: st' persistUserFiles_frame)
  have "contentPath userId fileId \<noteq> getUserFilesPath userId"
    using filesPath_neq_contentPath [of userId fileId] by simp
  then show "disk st' (contentPath userId fileId) = None"
    using b by (simp add: st' persistUserFiles_frame)
  show "\<exists>files'. userFiles st' userId = Some files' \<and>
          find (\<lambda>f. file_id f = fileId) files' = None"
    using find_None_after_remove [OF dist idx] by (simp add: st' persistUserFiles_frame)
  show "storeCache st' = storeCache st"
    using removeDocumentContent_ok(4) [OF rdc'] unlinkLocalFile_ok(3) [OF st1]
    by (simp add: st' persistUserFiles_frame)
qed

lemma indexPath_neq:
  "indexPath userId documentId \<noteq> contentPath userId documentId"
  "indexPath userId documentId \<noteq> getUserFilesPath userId"
  by (simp_all add: indexPath_def getIndexDir_def contentPath_def getUserFilesPath_def
      getUserUploadsDir_def)

lemma unlinkLocalFile_disk:
  assumes "unlinkLocalFile e st file = Inr st1" and "localPath file \<noteq> Some p"
  shows "disk st1 p = disk st p"
  using assms
  by (auto simp add: unlinkLocalFile_def unlink_def split: option.splits if_splits)

lemma removeDocumentContent_disk:
  assumes "removeDocumentContent e st userId documentId = (r, st')"
    and "p \<noteq> contentPath userId documentId"
  shows "disk st' p = disk st p"
  using assms
  by (auto simp add: removeDocumentContent_def Let_def unlink_def split: if_splits sum.splits)

lemma removeUserFile_keeps_index:
  assumes ok: "removeUserFile e st userId fileId = (Inr True, st')"
    and files: "userFiles st userId = Some files"
  shows "(\<forall>f \<in> set files. localPath f \<noteq> Some (indexPath userId fileId)) \<longrightarrow>
           disk st' (indexPath userId fileId) = disk st (indexPath userId fileId)"
proof
  assume other: "\<forall>f \<in> set files. localPath f \<noteq> Some (indexPath userId fileId)"
  from ok files obtain index where idx: "findIndex (\<lambda>f. file_id f = fileId) files = Some index"
    by (cases "findIndex (\<lambda>f. file_id f = fileId) files") (simp_all add: removeUserFile_def)
  from ok files idx obtain st1 where st1: "unlinkLocalFile e st (files ! index) = Inr st1"
    by (cases "unlinkLocalFile e st (files ! index)") (simp_all add: removeUserFile_def)
  obtain r st2 where rdc: "removeDocumentContent e st1 userId fileId = (r, st2)"
    by (cases "removeDocumentContent e st1 userId fileId")
  from ok files idx st1 rdc obtain okv where r: "r = Inr okv"
    by (cases r) (simp_all add: removeUserFile_def)
  let ?files' = "take index files @ drop (Suc index) files"
  from ok files idx st1 rdc r
  have st': "st' = persistUserFiles e
                     (st2\<lparr>userFiles := (userFiles st2)(userId \<mapsto> ?files')\<rparr>) userId ?files'"
    by (simp add: removeUserFile_def Let_def)
  from findIndex_Some [OF idx] have "files ! index \<in> set files" by simp
  with other have "localPath (files ! index) \<noteq> Some (indexPath userId fileId)" by blast
  from unlinkLocalFile_disk [OF st1 this]
  have a: "disk st1 (indexPath userId fileId) = disk st (indexPath userId fileId)" .
  from removeDocumentContent_disk [OF rdc indexPath_neq(1)]
  have b: "disk st2 (indexPath userId fileId) = disk st1 (indexPath userId fileId)" .
  from a b show "disk st' (indexPath userId fileId) = disk st (indexPath userId fileId)"
    by (simp add: st' persistUserFiles_frame indexPath_neq)
qed

lemma getUserFile_absent:
  assumes "userFiles st userId = Some files" and "find (\<lambda>f. file_id f = fileId) files = None"
  shows "getUserFile e st userId fileId = (None, st)"
  using assms by (simp add: getUserFile_def ensureUserFiles_def)

lemma getDocumentContent_absent:
  assumes "documentContents st (contentKey userId fileId) = None"
    and "disk st (contentPath userId fileId) = None"
    and "getUserFile e st userId fileId = (None, st)"
  shows "getDocumentContent e st userId fileId = (None, st)"
  using assms by (simp add: getDocumentContent_def existsSync_def)

text \<open>
  C1, as amended. Let \<^verbatim>\<open>removeUserFile\<close> return \<open>true\<close> for a user whose file list has no
  two entries with the same id. Then the content of the document is gone from the
  memory cache and from the disk, a load of the content finds nothing, and (for an
  id that passes \<^verbatim>\<open>validateDocumentId\<close>) the content route answers 404 and the question
  route answers 404 to every question that is not blank and not small talk. The
  retrieval index is not removed: the cached vector stores are left as they were,
  and so is the chunk list on the disk (unless it is itself the uploaded file of an
  entry).
\<close>

theorem delete_removes_content_and_entry:
  assumes "removeUserFile e st userId fileId = (Inr True, st')"
    and "userFiles st userId = Some files"
    and "distinct (map file_id files)"
    and "validateDocumentId fileId = None"
    and "question \<noteq> []" and "trim question \<noteq> []"
    and "\<not> rxTest greetingRx (trim (toLowerCase question))"
    and "\<not> rxTest identityRx (trim (toLowerCase question))"
  shows "documentContents st' (contentKey userId fileId) = None
    \<and> disk st' (contentPath userId fileId) = None
    \<and> getDocumentContent e' st' userId fileId = (None, st')
    \<and> getContent e' st' userId fileId now = (Failed 404 ''FILE_NOT_FOUND'', st')
    \<and> ask e' st' laterStages userId fileId question now
        = (Failed 404 ''DOCUMENT_NOT_FOUND'', st')
    \<and> storeCache st' = storeCache st
    \<and> ((\<forall>f \<in> set files. localPath f \<noteq> Some (indexPath userId fileId)) \<longrightarrow>
         disk st' (indexPath userId fileId) = disk st (indexPath userId fileId))"
proof -
  note s = removeUserFile_state [OF assms(1) assms(2) assms(3)]
  note ix = removeUserFile_keeps_index [OF assms(1) assms(2)]
  from s(3) obtain files' where f: "userFiles st' userId = Some files'"
    and n: "find (\<lambda>f. file_id f = fileId) files' = None" by blast
  have g: "getUserFile e' st' userId fileId = (None, st')"
    by (rule getUserFile_absent [OF f n])
  have c: "getDocumentContent e' st' userId fileId = (None, st')"
    by (rule getDocumentContent_absent [OF s(1) s(2) g])
  have r1: "getContent e' st' userId fileId now = (Failed 404 ''FILE_NOT_FOUND'', st')"
    using assms(4) g by (simp add: getContent_def)
  have r2: "ask e' st' laterStages userId fileId question now
              = (Failed 404 ''DOCUMENT_NOT_FOUND'', st')"
    using assms(4-8) g by (simp add: ask_def)
  from s(1) s(2) c r1 r2 s(4) ix show ?thesis by simp
qed

lemma remove_sample:
  "removeUserFile sampleWorld uploadedState ''u1'' ''d1'' = (Inr True, afterDelete)"
  apply (simp add: removeUserFile_def uploadedState_def sampleFile_def unlinkLocalFile_def
      existsSync_def unlink_def sampleWorld_def removeDocumentContent_def contentKey_def
      contentPath_def getUserUploadsDir_def persistUserFiles_def writeFile_def
      getUserFilesPath_def afterDelete_def)
  apply (rule ext)
  apply simp
  done

lemma sample_question_not_small_talk:
  "trim ''When is the rent due?'' \<noteq> []"
  "\<not> rxTest greetingRx (trim (toLowerCase ''When is the rent due?''))"
  "\<not> rxTest identityRx (trim (toLowerCase ''When is the rent due?''))"
  by code_simp+

theorem delete_removes_content_and_entry_witness:
  "removeUserFile sampleWorld uploadedState ''u1'' ''d1'' = (Inr True, afterDelete)
   \<and> userFiles uploadedState ''u1'' = Some [sampleFile]
   \<and> distinct (map file_id [sampleFile])
   \<and> validateDocumentId ''d1'' = None
   \<and> documentContents afterDelete (contentKey ''u1'' ''d1'') = None
   \<and> disk afterDelete (contentPath ''u1'' ''d1'') = None
   \<and> getDocumentContent sampleWorld afterDelete ''u1'' ''d1'' = (None, afterDelete)
   \<and> getContent sampleWorld afterDelete ''u1'' ''d1'' 5 = (Failed 404 ''FILE_NOT_FOUND'', afterDelete)
   \<and> ask sampleWorld afterDelete (\<lambda>q sentences. []) ''u1'' ''d1'' ''When is the rent due?'' 5
       = (Failed 404 ''DOCUMENT_NOT_FOUND'', afterDelete)
   \<and> localPath sampleFile \<noteq> Some (indexPath ''u1'' ''d1'')
   \<and> disk afterDelete (indexPath ''u1'' ''d1'') = disk uploadedState (indexPath ''u1'' ''d1'')"
proof -
  have h2: "userFiles uploadedState ''u1'' = Some [sampleFile]"
    by (simp add: uploadedState_def)
  have h3: "distinct (map file_id [sampleFile])"
    by simp
  have h4: "validateDocumentId ''d1'' = None"
    by (simp add: validateDocumentId_def)
  have h5: "''When is the rent due?'' \<noteq> []"
    by simp
  have h6: "localPath sampleFile \<noteq> Some (indexPath ''u1'' ''d1'')"
    by (simp add: sampleFile_def indexPath_def getIndexDir_def)
  from delete_removes_content_and_entry
         [OF remove_sample h2 h3 h4 h5 sample_question_not_small_talk,
          of sampleWorld 5 "\<lambda>q sentences. []"]
       remove_sample h2 h3 h4 h6
  show ?thesis by simp
qed

text \<open>
  C1 as stated fails: after the successful delete of the sample upload the chunk list
  of the document is still on the disk and still loads as an index, and the question
  route answers a greeting with 200 and not with a not-found error.
\<close>

lemma loadIndex_after_delete:
  "fst (loadIndex sampleWorld afterDelete ''u1'' ''d1'') = Some [sampleText]"
  by (simp add: loadIndex_def sampleWorld_def afterDelete_def existsSync_def indexPath_def
      getIndexDir_def readFile_def Let_def)

lemma greeting_after_delete:
  "fst (ask sampleWorld afterDelete (\<lambda>q sentences. []) ''u1'' ''d1'' ''Hello!'' 5)
     = Data ''Hello! How can I help you with your document?''"
proof -
  have "rxTest greetingRx (trim (toLowerCase ''Hello!''))" by code_simp
  moreover have "trim ''Hello!'' \<noteq> []" by code_simp
  ultimately show ?thesis
    by (simp add: ask_def validateDocumentId_def)
qed

theorem delete_keeps_index_counterexample:
  "removeUserFile sampleWorld uploadedState ''u1'' ''d1'' = (Inr True, afterDelete)
   \<and> disk afterDelete (indexPath ''u1'' ''d1'') \<noteq> None
   \<and> fst (loadIndex sampleWorld afterDelete ''u1'' ''d1'') = Some [sampleText]
   \<and> fst (ask sampleWorld afterDelete (\<lambda>q sentences. []) ''u1'' ''d1'' ''Hello!'' 5)
       = Data ''Hello! How can I help you with your document?''"
proof -
  have "disk afterDelete (indexPath ''u1'' ''d1'') \<noteq> None"
    by (simp add: afterDelete_def indexPath_def getIndexDir_def)
  with remove_sample loadIndex_after_delete greeting_after_delete show ?thesis by simp
qed

section \<open>Chunk index and retrieval\<close>

text \<open>
  C2. \<^verbatim>\<open>buildIndex\<close> should fail when no usable chunk is left. At the text \<open>hello world\<close>,
  which the splitter returns as one chunk of 11 characters, the emptiness check passes
  (one document), the filter drops the chunk, and an empty chunk list is written to
  \<^verbatim>\<open>chunks.json\<close> and reported as built.
\<close>

theorem buildIndex_persists_empty_chunk_set:
  "buildIndex sampleWorld emptyState ''u1'' ''d1'' ''hello world'' 1000 150 0
     = (Inr ''uploads/user-u1/lc-index-d1'',
        emptyState\<lparr>disk := [''uploads/user-u1/lc-index-d1/chunks.json'' \<mapsto>
          ChunksJson \<lparr>createdAt = 0, chunkSize = 1000, overlap = 150, chunks = [],
                      totalChunks = 0\<rparr>]\<rparr>)"
  by (simp add: buildIndex_def sampleWorld_def emptyState_def trim_def is_space_def mkdir_def
      writeFile_def getIndexDir_def indexPath_def)

text \<open>What does hold of \<^verbatim>\<open>buildIndex\<close>: a blank text is refused, and no short chunk is kept.\<close>

lemma buildIndex_blank_refused:
  assumes "importsResolve e" and "trim content = []"
  shows "buildIndex e st userId documentId content size' overlap' now
           = (Inl (Error ''No content provided for indexing''), st)"
  using assms by (simp add: buildIndex_def)

lemma buildIndex_chunks_long:
  assumes "buildIndex e st userId documentId content size' overlap' now = (Inr dir, st')"
  shows "\<exists>data. disk st' (indexPath userId documentId) = Some (ChunksJson data) \<and>
           (\<forall>chunk \<in> set (chunks data). length (trim chunk) > 20)"
  using assms
  by (auto simp add: buildIndex_def mkdir_def writeFile_def Let_def
      split: if_splits sum.splits)

text \<open>
  C4. \<^verbatim>\<open>retrieveTopK\<close> returns the empty string when no index is available and when the
  question is empty or blank. Otherwise it asks the loaded store for \<open>max 1 k\<close> chunks
  and returns the chunks found, joined by blank lines (the empty string when the
  search throws), so the number of chunks is governed by \<open>k\<close> clamped to at least 1:
  zero and negative values behave as 1. The state it leaves is the one \<^verbatim>\<open>loadIndex\<close>
  leaves, and it never throws.
\<close>

theorem retrieveTopK_degrades:
  "(fst (loadIndex e st userId documentId) = None \<longrightarrow>
       fst (retrieveTopK e st userId documentId question k) = Inr [])
   \<and> (question = [] \<or> trim question = [] \<longrightarrow>
       fst (retrieveTopK e st userId documentId question k) = Inr [])
   \<and> (\<forall>store. fst (loadIndex e st userId documentId) = Some store \<longrightarrow>
         question \<noteq> [] \<longrightarrow> trim question \<noteq> [] \<longrightarrow>
         fst (retrieveTopK e st userId documentId question k)
           = (case similaritySearch e store question (max 1 k) of
                Inl err \<Rightarrow> Inr []
              | Inr results \<Rightarrow> Inr (join [CHR 0x0A, CHR 0x0A] results)))
   \<and> snd (retrieveTopK e st userId documentId question k)
       = snd (loadIndex e st userId documentId)
   \<and> retrieveTopK e st userId documentId question k
       = retrieveTopK e st userId documentId question (max 1 k)
   \<and> (k \<le> 0 \<longrightarrow> retrieveTopK e st userId documentId question k
       = retrieveTopK e st userId documentId question 1)
   \<and> (\<exists>r. fst (retrieveTopK e st userId documentId question k) = Inr r)"
proof -
  obtain loaded st1 where l: "loadIndex e st userId documentId = (loaded, st1)"
    by (cases "loadIndex e st userId documentId")
  have pinned: "fst (retrieveTopK e st userId documentId question k)
           = (case similaritySearch e store question (max 1 k) of
                Inl err \<Rightarrow> Inr []
              | Inr results \<Rightarrow> Inr (join [CHR 0x0A, CHR 0x0A] results))"
    if "loaded = Some store" and "question \<noteq> []" and "trim question \<noteq> []" for store
  proof (cases "similaritySearch e store question (max 1 k)")
    case (Inl err)
    with that l show ?thesis by (simp add: retrieveTopK_def)
  next
    case (Inr results)
    with that l show ?thesis by (cases results) (simp_all add: retrieveTopK_def)
  qed
  have state: "snd (retrieveTopK e st userId documentId question k) = st1"
    using l by (simp add: retrieveTopK_def split: option.splits sum.splits)
  have clamp: "retrieveTopK e st userId documentId question k
       = retrieveTopK e st userId documentId question (max 1 k)"
  proof -
    have "max 1 (max 1 k) = max 1 k" by simp
    then show ?thesis unfolding retrieveTopK_def by (simp only:)
  qed
  have nonpos: "retrieveTopK e st userId documentId question k
       = retrieveTopK e st userId documentId question 1" if "k \<le> 0"
  proof -
    from that have "max 1 k = 1" and "max 1 (1 :: int) = 1" by simp_all
    then show ?thesis unfolding retrieveTopK_def by (simp only:)
  qed
  have returns: "\<exists>r. fst (retrieveTopK e st userId documentId question k) = Inr r"
    using l by (simp add: retrieveTopK_def split: option.splits sum.splits)
  have none: "fst (retrieveTopK e st userId documentId question k) = Inr []"
    if "loaded = None"
    using that l by (simp add: retrieveTopK_def)
  have blank: "fst (retrieveTopK e st userId documentId question k) = Inr []"
    if "question = [] \<or> trim question = []"
    using that l by (auto simp add: retrieveTopK_def split: option.splits)
  from none blank pinned state clamp nonpos returns l show ?thesis
    by simp
qed

lemma loadIndex_uploaded:
  "loadIndex sampleWorld uploadedState ''u1'' ''d1''
     = (Some [sampleText],
        uploadedState\<lparr>storeCache := [''uploads/user-u1/lc-index-d1'' \<mapsto> [sampleText]]\<rparr>)"
  by (simp add: loadIndex_def sampleWorld_def uploadedState_def existsSync_def indexPath_def
      getIndexDir_def readFile_def Let_def)

lemma loadIndex_indexed:
  "fst (loadIndex sampleWorld indexedState ''u1'' ''d1'') = Some [sampleText, noticeText]"
  by (simp add: loadIndex_def sampleWorld_def indexedState_def uploadedState_def existsSync_def
      indexPath_def getIndexDir_def readFile_def Let_def)

lemma rent_not_blank: "''rent'' \<noteq> [] \<and> trim ''rent'' \<noteq> []"
  by (simp add: trim_def is_space_def)

theorem retrieveTopK_degrades_witness:
  "fst (loadIndex sampleWorld emptyState ''u1'' ''d1'') = None
   \<and> fst (retrieveTopK sampleWorld emptyState ''u1'' ''d1'' ''rent'' 4) = Inr []
   \<and> trim ''  '' = []
   \<and> fst (retrieveTopK sampleWorld uploadedState ''u1'' ''d1'' ''  '' 4) = Inr []
   \<and> fst (loadIndex sampleWorld indexedState ''u1'' ''d1'') = Some [sampleText, noticeText]
   \<and> ''rent'' \<noteq> [] \<and> trim ''rent'' \<noteq> []
   \<and> fst (retrieveTopK sampleWorld indexedState ''u1'' ''d1'' ''rent'' 2)
       = Inr (sampleText @ [CHR 0x0A, CHR 0x0A] @ noticeText)
   \<and> fst (retrieveTopK sampleWorld indexedState ''u1'' ''d1'' ''rent'' 1) = Inr sampleText
   \<and> (0 :: int) \<le> 0
   \<and> retrieveTopK sampleWorld indexedState ''u1'' ''d1'' ''rent'' 0
       = retrieveTopK sampleWorld indexedState ''u1'' ''d1'' ''rent'' 1
   \<and> fst (retrieveTopK sampleWorld indexedState ''u1'' ''d1'' ''rent'' 0) = Inr sampleText"
proof -
  have a: "fst (loadIndex sampleWorld emptyState ''u1'' ''d1'') = None"
    by (simp add: loadIndex_def sampleWorld_def emptyState_def existsSync_def)
  have b: "trim ''  '' = []"
    by (simp add: trim_def is_space_def)
  have s2: "similaritySearch sampleWorld [sampleText, noticeText] ''rent'' 2
              = Inr [sampleText, noticeText]"
    and s1: "similaritySearch sampleWorld [sampleText, noticeText] ''rent'' 1
              = Inr [sampleText]"
    by (simp_all add: sampleWorld_def)
  from retrieveTopK_degrades [of sampleWorld emptyState "''u1''" "''d1''" "''rent''" 4] a
  have r0: "fst (retrieveTopK sampleWorld emptyState ''u1'' ''d1'' ''rent'' 4) = Inr []"
    by simp
  from retrieveTopK_degrades [of sampleWorld uploadedState "''u1''" "''d1''" "''  ''" 4] b
  have r1: "fst (retrieveTopK sampleWorld uploadedState ''u1'' ''d1'' ''  '' 4) = Inr []"
    by simp
  from retrieveTopK_degrades [of sampleWorld indexedState "''u1''" "''d1''" "''rent''" 2]
       loadIndex_indexed rent_not_blank
  have "fst (retrieveTopK sampleWorld indexedState ''u1'' ''d1'' ''rent'' 2)
          = (case similaritySearch sampleWorld [sampleText, noticeText] ''rent'' (max 1 2) of
               Inl err \<Rightarrow> Inr []
             | Inr results \<Rightarrow> Inr (join [CHR 0x0A, CHR 0x0A] results))"
    by blast
  then have r2: "fst (retrieveTopK sampleWorld indexedState ''u1'' ''d1'' ''rent'' 2)
                   = Inr (sampleText @ [CHR 0x0A, CHR 0x0A] @ noticeText)"
    by (simp add: s2)
  from retrieveTopK_degrades [of sampleWorld indexedState "''u1''" "''d1''" "''rent''" 1]
       loadIndex_indexed rent_not_blank
  have "fst (retrieveTopK sampleWorld indexedState ''u1'' ''d1'' ''rent'' 1)
          = (case similaritySearch sampleWorld [sampleText, noticeText] ''rent'' (max 1 1) of
               Inl err \<Rightarrow> Inr []
             | Inr results \<Rightarrow> Inr (join [CHR 0x0A, CHR 0x0A] results))"
    by blast
  then have r3: "fst (retrieveTopK sampleWorld indexedState ''u1'' ''d1'' ''rent'' 1)
                   = Inr sampleText"
    by (simp add: s1)
  from retrieveTopK_degrades [of sampleWorld indexedState "''u1''" "''d1''" "''rent''" 0]
  have r4: "retrieveTopK sampleWorld indexedState ''u1'' ''d1'' ''rent'' 0
              = retrieveTopK sampleWorld indexedState ''u1'' ''d1'' ''rent'' 1"
    by simp
  from a r0 b r1 loadIndex_indexed rent_not_blank r2 r3 r4 show ?thesis
    by simp
qed

section \<open>Text extraction\<close>

text \<open>
  C3. For every declared media type, \<^verbatim>\<open>extractTextFromFile\<close> applied to a buffer of no
  bytes throws the error whose message is \<open>The file is empty\<close>; it returns no text.
\<close>

theorem extract_empty_input_fails:
  "extractTextFromFile e st (Buffer []) mimeType' False = Inl (Error ''The file is empty'')"
  by (simp add: extractTextFromFile_def readInput_def extractByType_def userMessage_def)

text \<open>The same holds of the path of a file that has no bytes.\<close>

lemma extract_empty_file_fails:
  assumes "disk st p = Some (Bytes [])" and "\<not> diskFault e p" and "p \<noteq> []"
    and "\<not> startsWith p ''http://''" and "\<not> startsWith p ''https://''"
  shows "extractTextFromFile e st (Str p) mimeType' False = Inl (Error ''The file is empty'')"
  using assms
  by (simp add: extractTextFromFile_def readInput_def extractByType_def userMessage_def
      existsSync_def readFile_def)

section \<open>Summaries\<close>

text \<open>
  C5. If the summary cache holds an entry for the document and the caller that is
  younger than the time to live, \<^verbatim>\<open>generateSummary\<close> returns its text and changes
  nothing; so a second call while the entry is still young returns the same text.
\<close>

theorem cached_summary_returned:
  assumes "summaryCache st (documentId @ ''-'' @ ip) = Some (summary, timestamp)"
    and "t0 - timestamp < CACHE_TTL" and "t0' - timestamp < CACHE_TTL"
  shows "generateSummary e st text1 documentId ip fileName t0 t1 t2 = (Inr summary, st)
    \<and> generateSummary e' (snd (generateSummary e st text1 documentId ip fileName t0 t1 t2))
         text2 documentId ip fileName' t0' t1' t2' = (Inr summary, st)"
  using assms by (simp add: generateSummary_def)

theorem cached_summary_returned_witness:
  "summaryCache cachedState (''d1'' @ ''-'' @ ''10.0.0.1'') = Some (''A cached summary.'', 1000)
   \<and> (2000 :: int) - 1000 < CACHE_TTL \<and> (3000 :: int) - 1000 < CACHE_TTL
   \<and> generateSummary sampleWorld cachedState sampleText ''d1'' ''10.0.0.1'' None 2000 2000 2000
       = (Inr ''A cached summary.'', cachedState)
   \<and> generateSummary sampleWorld
        (snd (generateSummary sampleWorld cachedState sampleText ''d1'' ''10.0.0.1'' None
                2000 2000 2000))
        sampleText ''d1'' ''10.0.0.1'' None 3000 3000 3000
       = (Inr ''A cached summary.'', cachedState)"
proof -
  have a: "summaryCache cachedState (''d1'' @ ''-'' @ ''10.0.0.1'') = Some (''A cached summary.'', 1000)"
    by (simp add: cachedState_def)
  have b: "(2000 :: int) - 1000 < CACHE_TTL" and c: "(3000 :: int) - 1000 < CACHE_TTL"
    by (simp_all add: CACHE_TTL_def)
  note t = cached_summary_returned [OF a b c, of sampleWorld sampleText None 2000 2000
         sampleWorld sampleText None 3000 3000]
  from t have t1: "generateSummary sampleWorld cachedState sampleText ''d1'' ''10.0.0.1'' None
                     2000 2000 2000 = (Inr ''A cached summary.'', cachedState)"
    by (rule conjunct1)
  from t have t2: "generateSummary sampleWorld
        (snd (generateSummary sampleWorld cachedState sampleText ''d1'' ''10.0.0.1'' None
                2000 2000 2000))
        sampleText ''d1'' ''10.0.0.1'' None 3000 3000 3000
       = (Inr ''A cached summary.'', cachedState)"
    by (rule conjunct2)
  from a b c t1 t2 show ?thesis by (intro conjI)
qed

text \<open>The extractive summary of the sample text is its one sentence.\<close>

lemma sample_extractive_summary:
  "generateExtractiveSummary sampleText 180 = ''The rent is due on the first day of May.''"
  by code_simp

text \<open>
  C6, as amended. If no cache entry for the document and the caller is younger than the
  time to live, and the caller's counter stands at the quota or above and is not older
  than the window, then \<^verbatim>\<open>generateSummary\<close> returns the extractive summary of the text,
  whatever the generative model would answer; the rate check refuses, and the only
  change of state is the pruning of old counters.
\<close>

theorem rate_limited_summary_is_extractive:
  assumes "case summaryCache st (documentId @ ''-'' @ ip) of
             None \<Rightarrow> True
           | Some (summary, timestamp) \<Rightarrow> \<not> t0 - timestamp < CACHE_TTL"
    and "requestCounts st ip = Some (count, stamp)"
    and "count \<ge> maxRequests"
    and "\<not> stamp < t1 - windowMs"
  shows "generateSummary e st text1 documentId ip fileName t0 t1 t2
           = (Inr (generateExtractiveSummary text1 180), snd (checkRateLimit st ip t1))
    \<and> fst (checkRateLimit st ip t1) = False
    \<and> requestCounts (snd (checkRateLimit st ip t1)) ip = Some (count, stamp)"
proof -
  have f: "fst (checkRateLimit st ip t1) = False"
    and k: "requestCounts (snd (checkRateLimit st ip t1)) ip = Some (count, stamp)"
    using assms(2-4) by (simp_all add: checkRateLimit_def Let_def)
  obtain ok st1 where cr: "checkRateLimit st ip t1 = (ok, st1)"
    by (cases "checkRateLimit st ip t1")
  with f k have ok: "ok = False" and k': "requestCounts st1 ip = Some (count, stamp)"
    by simp_all
  have c: "(case summaryCache st (documentId @ ''-'' @ ip) of
              None \<Rightarrow> None
            | Some (summary, timestamp) \<Rightarrow>
                if t0 - timestamp < CACHE_TTL then Some summary else None) = None"
    using assms(1) by (auto split: option.splits)
  have "generateSummary e st text1 documentId ip fileName t0 t1 t2
          = (Inr (generateExtractiveSummary text1 180), st1)"
    unfolding generateSummary_def Let_def c
    by (simp add: cr ok)
  with cr ok k' show ?thesis by simp
qed

theorem rate_limited_summary_is_extractive_witness:
  "summaryCache limitedState (''d1'' @ ''-'' @ ''10.0.0.1'') = None
   \<and> requestCounts limitedState ''10.0.0.1'' = Some (10, 1000)
   \<and> maxRequests \<le> 10
   \<and> \<not> (1000 :: int) < 2000 - windowMs
   \<and> fst (generateSummary sampleWorld limitedState sampleText ''d1'' ''10.0.0.1'' None
            2000 2000 2000) = Inr ''The rent is due on the first day of May.''"
proof -
  have a: "summaryCache limitedState (''d1'' @ ''-'' @ ''10.0.0.1'') = None"
    by (simp add: limitedState_def emptyState_def)
  then have a': "case summaryCache limitedState (''d1'' @ ''-'' @ ''10.0.0.1'') of
                   None \<Rightarrow> True
                 | Some (summary, timestamp) \<Rightarrow> \<not> 2000 - timestamp < CACHE_TTL"
    by simp
  have b: "requestCounts limitedState ''10.0.0.1'' = Some (10, 1000)"
    by (simp add: limitedState_def)
  have c: "maxRequests \<le> 10"
    by (simp add: maxRequests_def)
  have d: "\<not> (1000 :: int) < 2000 - windowMs"
    by (simp add: windowMs_def)
  from rate_limited_summary_is_extractive [OF a' b c d, of sampleWorld sampleText None 2000]
  have "fst (generateSummary sampleWorld limitedState sampleText ''d1'' ''10.0.0.1'' None
               2000 2000 2000) = Inr (generateExtractiveSummary sampleText 180)"
    by simp
  with a b c d show ?thesis by (simp only: sample_extractive_summary simp_thms)
qed

text \<open>
  C6 as stated fails: the caller of \<open>cachedState\<close> is at the quota, yet the summary
  returned for the sample text is the cached one, not the extractive summary.
\<close>

theorem rate_limited_cached_counterexample:
  "requestCounts cachedState ''10.0.0.1'' = Some (10, 1000)
   \<and> maxRequests \<le> 10
   \<and> \<not> (1000 :: int) < 2000 - windowMs
   \<and> fst (generateSummary sampleWorld cachedState sampleText ''d1'' ''10.0.0.1'' None
            2000 2000 2000) = Inr ''A cached summary.''
   \<and> generateExtractiveSummary sampleText 180 = ''The rent is due on the first day of May.''"
proof -
  have "fst (generateSummary sampleWorld cachedState sampleText ''d1'' ''10.0.0.1'' None
               2000 2000 2000) = Inr ''A cached summary.''"
    by (simp add: generateSummary_def cachedState_def CACHE_TTL_def)
  moreover have "requestCounts cachedState ''10.0.0.1'' = Some (10, 1000)"
    by (simp add: cachedState_def limitedState_def)
  moreover have "maxRequests \<le> 10"
    by (simp add: maxRequests_def)
  moreover have "\<not> (1000 :: int) < 2000 - windowMs"
    by (simp add: windowMs_def)
  ultimately show ?thesis
    using sample_extractive_summary by simp
qed

subsection \<open>The extractive summary\<close>

lemma splitOn_count:
  assumes "skipping \<longrightarrow> cur = []"
  shows "length (filter (\<lambda>w. w \<noteq> []) (splitOn (\<lambda>left. True) skipping cur s))
           = (if cur \<noteq> [] then 1 else 0) + wcount (cur \<noteq> []) s"
  using assms
proof (induction s arbitrary: skipping cur)
  case Nil
  then show ?case by simp
next
  case (Cons c cs)
  show ?case
  proof (cases "is_space c")
    case True
    then show ?thesis using Cons.prems Cons.IH [of True "[]"] by auto
  next
    case False
    then show ?thesis using Cons.IH [of False "c # cur"] by simp
  qed
qed

lemma wordCount_wcount: "wordCount s = wcount False s"
  by (simp add: wordCount_def splitWhitespace_def splitOn_count)

lemma splitOn_spacefree:
  assumes "\<forall>c \<in> set cur. \<not> is_space c"
  shows "\<forall>w \<in> set (splitOn (\<lambda>left. True) skipping cur s). \<forall>c \<in> set w. \<not> is_space c"
  using assms
proof (induction s arbitrary: skipping cur)
  case Nil
  then show ?case by simp
next
  case (Cons c cs)
  have ih1: "\<forall>w \<in> set (splitOn (\<lambda>left. True) True cur cs). \<forall>c \<in> set w. \<not> is_space c"
    using Cons.IH [OF Cons.prems] .
  have ih2: "\<forall>w \<in> set (splitOn (\<lambda>left. True) True [] cs). \<forall>c \<in> set w. \<not> is_space c"
    using Cons.IH [of "[]" True] by simp
  show ?case
  proof (cases "is_space c")
    case True
    then show ?thesis using ih1 ih2 Cons.prems by (cases skipping) simp_all
  next
    case False
    with Cons.prems have "\<forall>x \<in> set (c # cur). \<not> is_space x" by simp
    from Cons.IH [OF this, of False] False show ?thesis by simp
  qed
qed

lemma pushWords_length: "length (pushWords t ws xs) \<le> max t (length ws)"
proof (induction xs arbitrary: ws)
  case Nil
  then show ?case by simp
next
  case (Cons a xs)
  then show ?case using Cons.IH [of "ws @ [a]"] by auto
qed

lemma composeWords_length: "length (composeWords t ws selected) \<le> max t (length ws)"
proof (induction selected arbitrary: ws)
  case Nil
  then show ?case by simp
next
  case (Cons s selected)
  have a: "length (pushWords t ws (splitWhitespace s)) \<le> max t (length ws)"
    by (rule pushWords_length)
  show ?case
    using a Cons.IH [of "pushWords t ws (splitWhitespace s)"]
    by (auto simp add: Let_def)
qed

lemma pushWords_set: "set (pushWords t ws xs) \<subseteq> set ws \<union> set xs"
proof (induction xs arbitrary: ws)
  case Nil
  then show ?case by simp
next
  case (Cons a xs)
  then show ?case using Cons.IH [of "ws @ [a]"] by auto
qed

lemma composeWords_spacefree:
  assumes "\<forall>w \<in> set ws. \<forall>c \<in> set w. \<not> is_space c"
  shows "\<forall>w \<in> set (composeWords t ws selected). \<forall>c \<in> set w. \<not> is_space c"
  using assms
proof (induction selected arbitrary: ws)
  case Nil
  then show ?case by simp
next
  case (Cons s selected)
  have sp: "\<forall>w \<in> set (splitWhitespace s). \<forall>c \<in> set w. \<not> is_space c"
    using splitOn_spacefree [of "[]" False s] by (simp add: splitWhitespace_def)
  have "\<forall>w \<in> set (pushWords t ws (splitWhitespace s)). \<forall>c \<in> set w. \<not> is_space c"
    using pushWords_set [of t ws "splitWhitespace s"] Cons.prems sp by blast
  then show ?case
    using Cons.IH [of "pushWords t ws (splitWhitespace s)"] by (simp add: Let_def)
qed

lemma mcount_word:
  assumes "\<forall>c \<in> set w. \<not> is_space c"
  shows "mcount inWord (w @ s)
           = (if w = [] then mcount inWord s else (if inWord then 0 else 1) + mcount True s)"
  using assms by (induction w arbitrary: inWord) auto

lemma is_space_blank: "is_space (CHR 0x20)"
  by (simp add: is_space_def)

lemma mcount_join:
  assumes "\<forall>w \<in> set ws. \<forall>c \<in> set w. \<not> is_space c"
  shows "mcount False (join '' '' ws) \<le> max 1 (length ws)"
  using assms
proof (induction "'' ''" ws rule: join.induct)
  case 1
  then show ?case by simp
next
  case (2 x)
  then show ?case using mcount_word [of x False "[]"] by simp
next
  case (3 x y ys)
  have "mcount False (x @ '' '' @ join '' '' (y # ys)) \<le> 1 + mcount False (join '' '' (y # ys))"
    using 3 mcount_word [of x False "'' '' @ join '' '' (y # ys)"] is_space_blank
    by (simp)
  then show ?case using 3 by simp
qed

lemma mcount_replaceRuns:
  assumes "\<not> (inRun \<and> inWord)"
  shows "mcount inWord (replaceRuns is_space inRun s) = mcount inWord s"
  using assms
proof (induction s arbitrary: inRun inWord)
  case Nil
  then show ?case by simp
next
  case (Cons c cs)
  then show ?case using is_space_blank by auto
qed

lemma punct_not_space: "is_punct d \<Longrightarrow> \<not> is_space d"
  by (auto simp add: is_punct_def is_space_def)

lemma mcount_tighten: "mcount inWord (tightenPunctuation s) \<le> mcount inWord s"
proof (induction s arbitrary: inWord rule: tightenPunctuation.induct)
  case 1
  then show ?case by simp
next
  case (2 c)
  then show ?case by simp
next
  case (3 c d cs)
  show ?case
  proof (cases "is_space c \<and> is_punct d")
    case True
    then have nd: "\<not> is_space d" by (simp add: punct_not_space)
    have "mcount inWord (tightenPunctuation (c # d # cs))
            = (if inWord then 0 else 1) + mcount True (tightenPunctuation cs)"
      using True nd by simp
    also have "\<dots> \<le> 1 + mcount True cs"
      using "3.IH"(1) [OF True, of True] by simp
    also have "\<dots> = mcount inWord (c # d # cs)"
      using True nd by simp
    finally show ?thesis .
  next
    case False
    have eq: "tightenPunctuation (c # d # cs) = c # tightenPunctuation (d # cs)"
      by (simp only: tightenPunctuation.simps False if_False)
    note ih = "3.IH"(2) [OF False]
    show ?thesis
    proof (cases "is_space c")
      case True
      have "mcount inWord (c # tightenPunctuation (d # cs))
              = mcount False (tightenPunctuation (d # cs))"
        using True by (simp only: mcount.simps if_True)
      also have "\<dots> \<le> mcount False (d # cs)" by (rule ih)
      also have "\<dots> = mcount inWord (c # d # cs)"
        using True by (simp only: mcount.simps(2) [of inWord c] if_True)
      finally show ?thesis by (simp only: eq)
    next
      case nsp: False
      have "mcount inWord (c # tightenPunctuation (d # cs))
              = (if inWord then 0 else 1) + mcount True (tightenPunctuation (d # cs))"
        using nsp by (simp only: mcount.simps if_False)
      also have "\<dots> \<le> (if inWord then 0 else 1) + mcount True (d # cs)"
        using ih [of True] by (simp only: add_le_cancel_left)
      also have "\<dots> = mcount inWord (c # d # cs)"
        using nsp by (simp only: mcount.simps(2) [of inWord c] if_False)
      finally show ?thesis by (simp only: eq)
    qed
  qed
qed

lemma wcount_le_mcount: "wcount inWord s \<le> mcount inWord s"
  by (induction s arbitrary: inWord) auto

lemma wcount_snoc:
  assumes "\<not> is_space c"
  shows "wcount inWord (s @ [c]) = mcount inWord s"
  using assms by (induction s arbitrary: inWord) auto

lemma composeParagraph_words: "wordCount (composeParagraph t selected) \<le> max 1 t"
proof -
  let ?ws = "composeWords t [] selected"
  let ?p = "tightenPunctuation (replaceRuns is_space False (join '' '' ?ws))"
  have sf: "\<forall>w \<in> set ?ws. \<forall>c \<in> set w. \<not> is_space c"
    using composeWords_spacefree [of "[]" t selected] by simp
  have len: "length ?ws \<le> t"
    using composeWords_length [of t "[]" selected] by simp
  have "mcount False ?p \<le> mcount False (replaceRuns is_space False (join '' '' ?ws))"
    by (rule mcount_tighten)
  also have "\<dots> = mcount False (join '' '' ?ws)"
    by (simp add: mcount_replaceRuns)
  also have "\<dots> \<le> max 1 (length ?ws)"
    by (rule mcount_join [OF sf])
  also have "\<dots> \<le> max 1 t"
    using len by simp
  finally have m: "mcount False ?p \<le> max 1 t" .
  have dot: "\<not> is_space CHR ''.''" by (simp add: is_space_def)
  have "wcount False (if \<not> endsWithTerminal ?p then ?p @ ''.'' else ?p) \<le> mcount False ?p"
    using wcount_snoc [OF dot, of False ?p] wcount_le_mcount [of False ?p] by simp
  with m show ?thesis
    by (simp add: composeParagraph_def wordCount_wcount Let_def)
qed

lemma composeParagraph_terminal: "endsWithTerminal (composeParagraph t selected)"
  by (simp add: composeParagraph_def Let_def endsWithTerminal_def is_terminal_def)

lemma trim_Nil_iff: "trim s = [] \<longleftrightarrow> (\<forall>c \<in> set s. is_space c)"
proof
  assume "trim s = []"
  then have "\<forall>c \<in> set (dropWhile is_space s). is_space c"
    by (simp add: trim_def dropWhile_eq_Nil_conv)
  then have "dropWhile is_space s = []"
    by (metis dropWhile_eq_Nil_conv hd_dropWhile list.set_sel(1))
  then show "\<forall>c \<in> set s. is_space c"
    by (simp add: dropWhile_eq_Nil_conv)
next
  assume "\<forall>c \<in> set s. is_space c"
  then have d: "dropWhile is_space s = []" by (simp add: dropWhile_eq_Nil_conv)
  show "trim s = []" by (simp only: trim_def d rev.simps dropWhile.simps)
qed

lemma replaceRuns_set: "set (replaceRuns p inRun s) \<subseteq> insert (CHR 0x20) (set s)"
  by (induction s arbitrary: inRun) auto

lemma cleanText_blank:
  assumes "trim s = []"
  shows "cleanText s = []"
proof -
  from assms have a: "\<forall>c \<in> set s. is_space c" by (simp add: trim_Nil_iff)
  let ?r = "replaceRuns (\<lambda>c. c = CHR 0x0D \<or> c = CHR 0x0A) False (replaceRuns is_space False s)"
  have "set ?r \<subseteq> insert (CHR 0x20) (insert (CHR 0x20) (set s))"
    using replaceRuns_set [of "\<lambda>c. c = CHR 0x0D \<or> c = CHR 0x0A" False "replaceRuns is_space False s"]
      replaceRuns_set [of is_space False s] by blast
  with a is_space_blank have "\<forall>c \<in> set ?r. is_space c" by auto
  then show ?thesis by (simp add: cleanText_def trim_Nil_iff)
qed

lemma neutral_facts: "wordCount neutralMessage = 6" "endsWithTerminal neutralMessage"
  by code_simp+

text \<open>
  C9. For every text, \<^verbatim>\<open>generateExtractiveSummary\<close> with the target of 180 words returns
  a string of at most 180 words (the appended full stop included) that ends with a
  full stop, an exclamation mark or a question mark; for a blank text it returns the
  fixed message. It is a total function: nothing is thrown.
\<close>

theorem extractive_summary_bounded:
  "wordCount (generateExtractiveSummary text' 180) \<le> 180
   \<and> endsWithTerminal (generateExtractiveSummary text' 180)
   \<and> (trim text' = [] \<longrightarrow> generateExtractiveSummary text' 180 = neutralMessage)"
proof (cases "cleanText text' = []")
  case True
  then show ?thesis
    by (simp add: generateExtractiveSummary_def neutral_facts)
next
  case False
  then have ne: "trim text' \<noteq> []" using cleanText_blank by blast
  have "wordCount (composeParagraph 180 (selectSentences (summarySentences (cleanText text')))) \<le> 180"
    using composeParagraph_words [of 180 "selectSentences (summarySentences (cleanText text'))"]
    by simp
  with False ne show ?thesis
    by (simp add: generateExtractiveSummary_def composeParagraph_terminal)
qed

theorem extractive_summary_bounded_witness:
  "trim ''  '' = []
   \<and> generateExtractiveSummary ''  '' 180 = neutralMessage
   \<and> generateExtractiveSummary sampleText 180 = ''The rent is due on the first day of May.''
   \<and> wordCount (generateExtractiveSummary sampleText 180) \<le> 180
   \<and> endsWithTerminal (generateExtractiveSummary sampleText 180)"
proof -
  have a: "trim ''  '' = []"
    by (simp add: trim_def is_space_def)
  from extractive_summary_bounded [of "''  ''"] a
  have b: "generateExtractiveSummary ''  '' 180 = neutralMessage"
    by simp
  from extractive_summary_bounded [of sampleText]
  have c: "wordCount (generateExtractiveSummary sampleText 180) \<le> 180"
    and d: "endsWithTerminal (generateExtractiveSummary sampleText 180)"
    by simp_all
  from a b c d sample_extractive_summary show ?thesis by (intro conjI)
qed

section \<open>Answers\<close>




















end
